theory Spec2Isabelle
  imports Complex_Main "HOL-Library.Word"
begin

section \<open>Shared data model\<close>

text \<open>
  The portable GPU front end (\<^verbatim>\<open>src/gpu/SDL_gpu.c\<close>), the Direct3D 12 back end
  (\<^verbatim>\<open>src/gpu/d3d12/SDL_gpu_d3d12.c\<close>) and the 2D renderer built on the front end
  are embedded function by function.  Pointers whose pointee no modelled code reads are
  values of \<open>ptr\<close>; pointers to records the code reads are \<open>option\<close> values.
  Bit sets of the public header (shader formats, texture usage) are sets of their
  enumerants, so that \<^verbatim>\<open>a & b\<close> is \<open>a \<inter> b\<close> and a test for zero is a test for \<open>{}\<close>.
\<close>

datatype ptr = NULL | Valid

datatype SDL_GpuShaderFormatBit =
  SHADERFORMAT_SECRET | SHADERFORMAT_SPIRV | SHADERFORMAT_DXBC
| SHADERFORMAT_DXIL | SHADERFORMAT_MSL | SHADERFORMAT_METALLIB | SHADERFORMAT_HLSL

datatype SDL_GpuDriver =
  SDL_GPU_DRIVER_INVALID | SDL_GPU_DRIVER_SECRET | SDL_GPU_DRIVER_VULKAN
| SDL_GPU_DRIVER_D3D11 | SDL_GPU_DRIVER_METAL | SDL_GPU_DRIVER_D3D12

text \<open>The three fields of the device that the front end itself writes and reads.\<close>

record SDL_GpuDevice =
  backend :: SDL_GpuDriver
  shaderFormats :: "SDL_GpuShaderFormatBit set"
  debugMode :: bool

text \<open>
  Texture formats: the five depth formats that \<^verbatim>\<open>SDL_GpuCreateGraphicsPipeline\<close>
  distinguishes, and every other enumerant by its number.
\<close>

datatype SDL_GpuTextureFormat =
  D16_UNORM | D24_UNORM | D32_SFLOAT | D24_UNORM_S8_UINT | D32_SFLOAT_S8_UINT
| OtherFormat nat

datatype SDL_GpuTextureType = TEXTURETYPE_2D | TEXTURETYPE_2D_ARRAY | TEXTURETYPE_3D | TEXTURETYPE_CUBE

datatype SDL_GpuTextureUsageBit =
  SAMPLER_BIT | COLOR_TARGET_BIT | DEPTH_STENCIL_TARGET_BIT
| GRAPHICS_STORAGE_READ_BIT | COMPUTE_STORAGE_READ_BIT | COMPUTE_STORAGE_WRITE_BIT

text \<open>A compiled shader as the back end keeps it (\<^verbatim>\<open>struct D3D12Shader\<close>, bytecode left out).\<close>

record D3D12Shader =
  samplerCount :: "32 word"
  uniformBufferCount :: "32 word"
  storageBufferCount :: "32 word"
  storageTextureCount :: "32 word"

datatype SDL_GpuFrontFace = FRONTFACE_COUNTER_CLOCKWISE | FRONTFACE_CLOCKWISE | FrontFaceOther nat

record SDL_GpuGraphicsPipelineAttachmentInfo =
  hasDepthStencilAttachment :: bool
  depthStencilFormat :: SDL_GpuTextureFormat

record SDL_GpuGraphicsPipelineCreateInfo =
  vertexShader :: D3D12Shader
  fragmentShader :: D3D12Shader
  frontFace :: SDL_GpuFrontFace
  primitiveType :: nat
  stencilReference :: "32 word"
  attachmentInfo :: SDL_GpuGraphicsPipelineAttachmentInfo

section \<open>Front end: pipeline creation\<close>

datatype log_entry =
  InvalidParamError string
| LogWarn_UnsupportedDepthFormat SDL_GpuTextureFormat SDL_GpuTextureFormat

text \<open>
  \<^verbatim>\<open>SDL_GpuCreateGraphicsPipeline\<close>.  The two entries of the device's function table that
  it calls are parameters: \<open>SupportsTextureFormat\<close> and \<open>CreateGraphicsPipeline\<close>.  The
  caller's record is passed by pointer, so the function returns it as it stands after the
  call, next to the returned pipeline and the messages logged.
\<close>

definition SDL_GpuCreateGraphicsPipeline ::
  "(SDL_GpuTextureFormat \<Rightarrow> SDL_GpuTextureType \<Rightarrow> SDL_GpuTextureUsageBit set \<Rightarrow> bool) \<Rightarrow>
   (SDL_GpuGraphicsPipelineCreateInfo \<Rightarrow> 'p option) \<Rightarrow>
   ptr \<Rightarrow> SDL_GpuGraphicsPipelineCreateInfo option \<Rightarrow>
   'p option \<times> SDL_GpuGraphicsPipelineCreateInfo option \<times> log_entry list" where
  "SDL_GpuCreateGraphicsPipeline SupportsTextureFormat CreateGraphicsPipeline device graphicsPipelineCreateInfo =
    (if device = NULL then (None, graphicsPipelineCreateInfo, [InvalidParamError ''Invalid GPU device''])
     else case graphicsPipelineCreateInfo of
       None \<Rightarrow> (None, None, [InvalidParamError ''graphicsPipelineCreateInfo''])
     | Some info \<Rightarrow>
        (if hasDepthStencilAttachment (attachmentInfo info) \<and>
            \<not> SupportsTextureFormat (depthStencilFormat (attachmentInfo info)) TEXTURETYPE_2D {DEPTH_STENCIL_TARGET_BIT}
         then
           let newFormat =
             (case depthStencilFormat (attachmentInfo info) of
                D24_UNORM \<Rightarrow> D32_SFLOAT
              | D32_SFLOAT \<Rightarrow> D24_UNORM
              | D24_UNORM_S8_UINT \<Rightarrow> D32_SFLOAT_S8_UINT
              | D32_SFLOAT_S8_UINT \<Rightarrow> D24_UNORM_S8_UINT
              | _ \<Rightarrow> D16_UNORM);
             info' = info\<lparr>attachmentInfo := (attachmentInfo info)\<lparr>depthStencilFormat := newFormat\<rparr>\<rparr>
           in (CreateGraphicsPipeline info', Some info',
               [LogWarn_UnsupportedDepthFormat (depthStencilFormat (attachmentInfo info)) newFormat])
         else (CreateGraphicsPipeline info, Some info, [])))"

text \<open>
  The fallback table in the words of the claim: the two 24/32-bit pairs swap, everything
  else falls back to \<open>D16_UNORM\<close>.
\<close>

definition paired_fallback_format :: "SDL_GpuTextureFormat \<Rightarrow> SDL_GpuTextureFormat" where
  "paired_fallback_format f =
    (if f = D24_UNORM then D32_SFLOAT
     else if f = D32_SFLOAT then D24_UNORM
     else if f = D24_UNORM_S8_UINT then D32_SFLOAT_S8_UINT
     else if f = D32_SFLOAT_S8_UINT then D24_UNORM_S8_UINT
     else D16_UNORM)"

definition depth_format_rejected ::
  "(SDL_GpuTextureFormat \<Rightarrow> SDL_GpuTextureType \<Rightarrow> SDL_GpuTextureUsageBit set \<Rightarrow> bool) \<Rightarrow>
   SDL_GpuGraphicsPipelineCreateInfo \<Rightarrow> bool" where
  "depth_format_rejected SupportsTextureFormat info =
    (hasDepthStencilAttachment (attachmentInfo info) \<and>
     \<not> SupportsTextureFormat (depthStencilFormat (attachmentInfo info)) TEXTURETYPE_2D {DEPTH_STENCIL_TARGET_BIT})"

section \<open>Front end: the command-buffer state machine\<close>

text \<open>
  A texture as \<^verbatim>\<open>SDL_GpuBlit\<close> reads it through \<^verbatim>\<open>TextureCommonHeader\<close>: the fields of
  its creation record that the debug-mode validation inspects.
\<close>

record TextureCommonHeader =
  usageFlags :: "SDL_GpuTextureUsageBit set"
  layerCount :: "32 word"
  depth :: "32 word"

text \<open>
  One constructor per entry of the device's function table that takes a command buffer,
  with the arguments the front end receives, grouped by the handle the public entry
  point takes (the command buffer, or one of its three passes).  A value of this type is both a request to
  the matching public entry point and, once the front end has forwarded it, the record of
  that call in the command buffer's list \<open>delegated\<close>.  Scalar arguments that no
  front-end check reads, and that are passed on unchanged, are left out.
\<close>

datatype command_buffer_call =
  InsertDebugLabel ptr
| PushDebugGroup ptr
| PopDebugGroup
| PushVertexUniformData "32 word" ptr "32 word"
| PushFragmentUniformData "32 word" ptr "32 word"
| PushComputeUniformData "32 word" ptr "32 word"
| BeginRenderPass ptr "32 word" ptr
| BeginComputePass ptr "32 word" ptr "32 word"
| BeginCopyPass
| Blit "TextureCommonHeader option" "TextureCommonHeader option"
| AcquireSwapchainTexture ptr ptr ptr
| Submit
| SubmitAndAcquireFence

datatype render_pass_call =
  BindGraphicsPipeline ptr
| SetViewport ptr
| SetScissor ptr
| BindVertexBuffers "32 word" ptr "32 word"
| BindIndexBuffer ptr
| BindVertexSamplers "32 word" ptr "32 word"
| BindVertexStorageTextures "32 word" ptr "32 word"
| BindVertexStorageBuffers "32 word" ptr "32 word"
| BindFragmentSamplers "32 word" ptr "32 word"
| BindFragmentStorageTextures "32 word" ptr "32 word"
| BindFragmentStorageBuffers "32 word" ptr "32 word"
| DrawIndexedPrimitives "32 word" "32 word" "32 word" "32 word"
| DrawPrimitives "32 word" "32 word"
| DrawPrimitivesIndirect ptr "32 word" "32 word" "32 word"
| DrawIndexedPrimitivesIndirect ptr "32 word" "32 word" "32 word"
| EndRenderPass

datatype compute_pass_call =
  BindComputePipeline ptr
| BindComputeStorageTextures "32 word" ptr "32 word"
| BindComputeStorageBuffers "32 word" ptr "32 word"
| DispatchCompute "32 word" "32 word" "32 word"
| DispatchComputeIndirect ptr "32 word"
| EndComputePass

datatype copy_pass_call =
  UploadToTexture ptr ptr
| UploadToBuffer ptr ptr
| CopyTextureToTexture ptr ptr
| CopyBufferToBuffer ptr ptr
| GenerateMipmaps ptr
| DownloadFromTexture ptr ptr
| DownloadFromBuffer ptr ptr
| EndCopyPass

datatype gpu_call =
  OnCommandBuffer command_buffer_call
| OnRenderPass render_pass_call
| OnComputePass compute_pass_call
| OnCopyPass copy_pass_call


text \<open>
  \<^verbatim>\<open>CommandBufferCommonHeader\<close>, with the two \<^verbatim>\<open>Pass\<close> members flattened to their
  \<^verbatim>\<open>inProgress\<close> flags (their back pointers always point to the command buffer itself),
  and the calls the front end has forwarded to the back end, oldest first.
\<close>

record CommandBuffer =
  device :: SDL_GpuDevice
  renderPass_inProgress :: bool
  graphicsPipelineBound :: bool
  computePass_inProgress :: bool
  computePipelineBound :: bool
  copyPass_inProgress :: bool
  submitted :: bool
  delegated :: "gpu_call list"

definition delegate :: "gpu_call \<Rightarrow> CommandBuffer \<Rightarrow> CommandBuffer" where
  "delegate c cb = cb\<lparr>delegated := delegated cb @ [c]\<rparr>"

text \<open>The condition of the macro \<^verbatim>\<open>CHECK_ANY_PASS_IN_PROGRESS\<close>.\<close>

definition any_pass_in_progress :: "CommandBuffer \<Rightarrow> bool" where
  "any_pass_in_progress cb =
    (renderPass_inProgress cb \<or> computePass_inProgress cb \<or> copyPass_inProgress cb)"

text \<open>
  Limits of \<^verbatim>\<open>SDL_sysgpu.h\<close>, which is not among the sources.  The two compute limits
  are 8 (the messages of \<^verbatim>\<open>SDL_GpuCreateComputePipeline\<close> say so);
  \<^verbatim>\<open>MAX_COLOR_TARGET_BINDINGS\<close> is a parameter of the functions that read it.
\<close>

definition MAX_COMPUTE_WRITE_TEXTURES :: "32 word" where "MAX_COMPUTE_WRITE_TEXTURES = 8"
definition MAX_COMPUTE_WRITE_BUFFERS :: "32 word" where "MAX_COMPUTE_WRITE_BUFFERS = 8"

text \<open>
  \<^verbatim>\<open>SDL_GpuAcquireCommandBuffer\<close>: the back end hands out a command buffer (\<open>acquired\<close>, or
  \<open>None\<close> for \<^verbatim>\<open>NULL\<close>) and the front end resets its header.
\<close>

definition SDL_GpuAcquireCommandBuffer ::
  "SDL_GpuDevice option \<Rightarrow> CommandBuffer option \<Rightarrow> CommandBuffer option" where
  "SDL_GpuAcquireCommandBuffer dev acquired =
    (case dev of None \<Rightarrow> None
     | Some d \<Rightarrow>
        (case acquired of None \<Rightarrow> None
         | Some cb \<Rightarrow> Some (cb\<lparr>device := d,
              renderPass_inProgress := False, graphicsPipelineBound := False,
              computePass_inProgress := False, computePipelineBound := False,
              copyPass_inProgress := False, submitted := False\<rparr>)))"

subsection \<open>Entry points that take the command buffer\<close>

text \<open>
  In each function the first argument is the handle the caller passes: \<open>NULL\<close>, or \<open>Valid\<close>
  for a pointer to the command buffer \<open>cb\<close> (for a pass handle: to the \<^verbatim>\<open>Pass\<close> member of
  its header).  A function of C type \<^verbatim>\<open>void\<close> returns the command buffer after the call;
  one that returns a pointer returns the pair of that pointer and the command buffer.
\<close>

definition SDL_GpuInsertDebugLabel :: "ptr \<Rightarrow> ptr \<Rightarrow> CommandBuffer \<Rightarrow> CommandBuffer" where
  "SDL_GpuInsertDebugLabel commandBuffer txt cb =
    (if commandBuffer = NULL then cb
     else if txt = NULL then cb
     else if debugMode (device cb) \<and> submitted cb then cb
     else delegate (OnCommandBuffer (InsertDebugLabel txt)) cb)"

definition SDL_GpuPushDebugGroup :: "ptr \<Rightarrow> ptr \<Rightarrow> CommandBuffer \<Rightarrow> CommandBuffer" where
  "SDL_GpuPushDebugGroup commandBuffer name cb =
    (if commandBuffer = NULL then cb
     else if name = NULL then cb
     else if debugMode (device cb) \<and> submitted cb then cb
     else delegate (OnCommandBuffer (PushDebugGroup name)) cb)"

definition SDL_GpuPopDebugGroup :: "ptr \<Rightarrow> CommandBuffer \<Rightarrow> CommandBuffer" where
  "SDL_GpuPopDebugGroup commandBuffer cb =
    (if commandBuffer = NULL then cb
     else if debugMode (device cb) \<and> submitted cb then cb
     else delegate (OnCommandBuffer PopDebugGroup) cb)"

definition SDL_GpuPushVertexUniformData ::
  "ptr \<Rightarrow> 32 word \<Rightarrow> ptr \<Rightarrow> 32 word \<Rightarrow> CommandBuffer \<Rightarrow> CommandBuffer" where
  "SDL_GpuPushVertexUniformData commandBuffer slotIndex data dataLengthInBytes cb =
    (if commandBuffer = NULL then cb
     else if data = NULL then cb
     else if debugMode (device cb) \<and> submitted cb then cb
     else delegate (OnCommandBuffer (PushVertexUniformData slotIndex data dataLengthInBytes)) cb)"

definition SDL_GpuPushFragmentUniformData ::
  "ptr \<Rightarrow> 32 word \<Rightarrow> ptr \<Rightarrow> 32 word \<Rightarrow> CommandBuffer \<Rightarrow> CommandBuffer" where
  "SDL_GpuPushFragmentUniformData commandBuffer slotIndex data dataLengthInBytes cb =
    (if commandBuffer = NULL then cb
     else if data = NULL then cb
     else if debugMode (device cb) \<and> submitted cb then cb
     else delegate (OnCommandBuffer (PushFragmentUniformData slotIndex data dataLengthInBytes)) cb)"

definition SDL_GpuPushComputeUniformData ::
  "ptr \<Rightarrow> 32 word \<Rightarrow> ptr \<Rightarrow> 32 word \<Rightarrow> CommandBuffer \<Rightarrow> CommandBuffer" where
  "SDL_GpuPushComputeUniformData commandBuffer slotIndex data dataLengthInBytes cb =
    (if commandBuffer = NULL then cb
     else if data = NULL then cb
     else if debugMode (device cb) \<and> submitted cb then cb
     else delegate (OnCommandBuffer (PushComputeUniformData slotIndex data dataLengthInBytes)) cb)"

subsection \<open>Render pass\<close>

definition SDL_GpuBeginRenderPass ::
  "32 word \<Rightarrow> ptr \<Rightarrow> ptr \<Rightarrow> 32 word \<Rightarrow> ptr \<Rightarrow> CommandBuffer \<Rightarrow> ptr \<times> CommandBuffer" where
  "SDL_GpuBeginRenderPass MAX_COLOR_TARGET_BINDINGS commandBuffer colorAttachmentInfos
      colorAttachmentCount depthStencilAttachmentInfo cb =
    (if commandBuffer = NULL then (NULL, cb)
     else if colorAttachmentInfos = NULL \<and> colorAttachmentCount > 0 then (NULL, cb)
     else if colorAttachmentCount > MAX_COLOR_TARGET_BINDINGS then (NULL, cb)
     else if debugMode (device cb) \<and> submitted cb then (NULL, cb)
     else if debugMode (device cb) \<and> any_pass_in_progress cb then (NULL, cb)
     else (Valid,
           (delegate (OnCommandBuffer (BeginRenderPass colorAttachmentInfos colorAttachmentCount
                        depthStencilAttachmentInfo)) cb)
           \<lparr>renderPass_inProgress := True\<rparr>))"

definition SDL_GpuBindGraphicsPipeline :: "ptr \<Rightarrow> ptr \<Rightarrow> CommandBuffer \<Rightarrow> CommandBuffer" where
  "SDL_GpuBindGraphicsPipeline renderPass graphicsPipeline cb =
    (if renderPass = NULL then cb
     else if graphicsPipeline = NULL then cb
     else (delegate (OnRenderPass (BindGraphicsPipeline graphicsPipeline)) cb)\<lparr>graphicsPipelineBound := True\<rparr>)"

definition SDL_GpuSetViewport :: "ptr \<Rightarrow> ptr \<Rightarrow> CommandBuffer \<Rightarrow> CommandBuffer" where
  "SDL_GpuSetViewport renderPass viewport cb =
    (if renderPass = NULL then cb
     else if viewport = NULL then cb
     else if debugMode (device cb) \<and> \<not> renderPass_inProgress cb then cb
     else delegate (OnRenderPass (SetViewport viewport)) cb)"

definition SDL_GpuSetScissor :: "ptr \<Rightarrow> ptr \<Rightarrow> CommandBuffer \<Rightarrow> CommandBuffer" where
  "SDL_GpuSetScissor renderPass scissor cb =
    (if renderPass = NULL then cb
     else if scissor = NULL then cb
     else if debugMode (device cb) \<and> \<not> renderPass_inProgress cb then cb
     else delegate (OnRenderPass (SetScissor scissor)) cb)"

definition SDL_GpuBindVertexBuffers ::
  "ptr \<Rightarrow> 32 word \<Rightarrow> ptr \<Rightarrow> 32 word \<Rightarrow> CommandBuffer \<Rightarrow> CommandBuffer" where
  "SDL_GpuBindVertexBuffers renderPass firstBinding pBindings bindingCount cb =
    (if renderPass = NULL then cb
     else if pBindings = NULL \<and> bindingCount > 0 then cb
     else if debugMode (device cb) \<and> \<not> renderPass_inProgress cb then cb
     else delegate (OnRenderPass (BindVertexBuffers firstBinding pBindings bindingCount)) cb)"

definition SDL_GpuBindIndexBuffer :: "ptr \<Rightarrow> ptr \<Rightarrow> CommandBuffer \<Rightarrow> CommandBuffer" where
  "SDL_GpuBindIndexBuffer renderPass pBinding cb =
    (if renderPass = NULL then cb
     else if pBinding = NULL then cb
     else if debugMode (device cb) \<and> \<not> renderPass_inProgress cb then cb
     else delegate (OnRenderPass (BindIndexBuffer pBinding)) cb)"

definition SDL_GpuBindVertexSamplers ::
  "ptr \<Rightarrow> 32 word \<Rightarrow> ptr \<Rightarrow> 32 word \<Rightarrow> CommandBuffer \<Rightarrow> CommandBuffer" where
  "SDL_GpuBindVertexSamplers renderPass firstSlot textureSamplerBindings bindingCount cb =
    (if renderPass = NULL then cb
     else if textureSamplerBindings = NULL \<and> bindingCount > 0 then cb
     else if debugMode (device cb) \<and> \<not> renderPass_inProgress cb then cb
     else delegate (OnRenderPass (BindVertexSamplers firstSlot textureSamplerBindings bindingCount)) cb)"

definition SDL_GpuBindVertexStorageTextures ::
  "ptr \<Rightarrow> 32 word \<Rightarrow> ptr \<Rightarrow> 32 word \<Rightarrow> CommandBuffer \<Rightarrow> CommandBuffer" where
  "SDL_GpuBindVertexStorageTextures renderPass firstSlot storageTextures bindingCount cb =
    (if renderPass = NULL then cb
     else if storageTextures = NULL \<and> bindingCount > 0 then cb
     else if debugMode (device cb) \<and> \<not> renderPass_inProgress cb then cb
     else delegate (OnRenderPass (BindVertexStorageTextures firstSlot storageTextures bindingCount)) cb)"

definition SDL_GpuBindVertexStorageBuffers ::
  "ptr \<Rightarrow> 32 word \<Rightarrow> ptr \<Rightarrow> 32 word \<Rightarrow> CommandBuffer \<Rightarrow> CommandBuffer" where
  "SDL_GpuBindVertexStorageBuffers renderPass firstSlot storageBuffers bindingCount cb =
    (if renderPass = NULL then cb
     else if storageBuffers = NULL \<and> bindingCount > 0 then cb
     else if debugMode (device cb) \<and> \<not> renderPass_inProgress cb then cb
     else delegate (OnRenderPass (BindVertexStorageBuffers firstSlot storageBuffers bindingCount)) cb)"

definition SDL_GpuBindFragmentSamplers ::
  "ptr \<Rightarrow> 32 word \<Rightarrow> ptr \<Rightarrow> 32 word \<Rightarrow> CommandBuffer \<Rightarrow> CommandBuffer" where
  "SDL_GpuBindFragmentSamplers renderPass firstSlot textureSamplerBindings bindingCount cb =
    (if renderPass = NULL then cb
     else if textureSamplerBindings = NULL \<and> bindingCount > 0 then cb
     else if debugMode (device cb) \<and> \<not> renderPass_inProgress cb then cb
     else delegate (OnRenderPass (BindFragmentSamplers firstSlot textureSamplerBindings bindingCount)) cb)"

definition SDL_GpuBindFragmentStorageTextures ::
  "ptr \<Rightarrow> 32 word \<Rightarrow> ptr \<Rightarrow> 32 word \<Rightarrow> CommandBuffer \<Rightarrow> CommandBuffer" where
  "SDL_GpuBindFragmentStorageTextures renderPass firstSlot storageTextures bindingCount cb =
    (if renderPass = NULL then cb
     else if storageTextures = NULL \<and> bindingCount > 0 then cb
     else if debugMode (device cb) \<and> \<not> renderPass_inProgress cb then cb
     else delegate (OnRenderPass (BindFragmentStorageTextures firstSlot storageTextures bindingCount)) cb)"

definition SDL_GpuBindFragmentStorageBuffers ::
  "ptr \<Rightarrow> 32 word \<Rightarrow> ptr \<Rightarrow> 32 word \<Rightarrow> CommandBuffer \<Rightarrow> CommandBuffer" where
  "SDL_GpuBindFragmentStorageBuffers renderPass firstSlot storageBuffers bindingCount cb =
    (if renderPass = NULL then cb
     else if storageBuffers = NULL \<and> bindingCount > 0 then cb
     else if debugMode (device cb) \<and> \<not> renderPass_inProgress cb then cb
     else delegate (OnRenderPass (BindFragmentStorageBuffers firstSlot storageBuffers bindingCount)) cb)"

definition SDL_GpuDrawIndexedPrimitives ::
  "ptr \<Rightarrow> 32 word \<Rightarrow> 32 word \<Rightarrow> 32 word \<Rightarrow> 32 word \<Rightarrow> CommandBuffer \<Rightarrow> CommandBuffer" where
  "SDL_GpuDrawIndexedPrimitives renderPass baseVertex startIndex vertexCount instanceCount cb =
    (if renderPass = NULL then cb
     else if debugMode (device cb) \<and> \<not> renderPass_inProgress cb then cb
     else if debugMode (device cb) \<and> \<not> graphicsPipelineBound cb then cb
     else delegate (OnRenderPass (DrawIndexedPrimitives baseVertex startIndex vertexCount instanceCount)) cb)"

definition SDL_GpuDrawPrimitives ::
  "ptr \<Rightarrow> 32 word \<Rightarrow> 32 word \<Rightarrow> CommandBuffer \<Rightarrow> CommandBuffer" where
  "SDL_GpuDrawPrimitives renderPass vertexStart vertexCount cb =
    (if renderPass = NULL then cb
     else if debugMode (device cb) \<and> \<not> renderPass_inProgress cb then cb
     else if debugMode (device cb) \<and> \<not> graphicsPipelineBound cb then cb
     else delegate (OnRenderPass (DrawPrimitives vertexStart vertexCount)) cb)"

definition SDL_GpuDrawPrimitivesIndirect ::
  "ptr \<Rightarrow> ptr \<Rightarrow> 32 word \<Rightarrow> 32 word \<Rightarrow> 32 word \<Rightarrow> CommandBuffer \<Rightarrow> CommandBuffer" where
  "SDL_GpuDrawPrimitivesIndirect renderPass buffer offsetInBytes drawCount stride cb =
    (if renderPass = NULL then cb
     else if buffer = NULL then cb
     else if debugMode (device cb) \<and> \<not> renderPass_inProgress cb then cb
     else if debugMode (device cb) \<and> \<not> graphicsPipelineBound cb then cb
     else delegate (OnRenderPass (DrawPrimitivesIndirect buffer offsetInBytes drawCount stride)) cb)"

definition SDL_GpuDrawIndexedPrimitivesIndirect ::
  "ptr \<Rightarrow> ptr \<Rightarrow> 32 word \<Rightarrow> 32 word \<Rightarrow> 32 word \<Rightarrow> CommandBuffer \<Rightarrow> CommandBuffer" where
  "SDL_GpuDrawIndexedPrimitivesIndirect renderPass buffer offsetInBytes drawCount stride cb =
    (if renderPass = NULL then cb
     else if buffer = NULL then cb
     else if debugMode (device cb) \<and> \<not> renderPass_inProgress cb then cb
     else if debugMode (device cb) \<and> \<not> graphicsPipelineBound cb then cb
     else delegate (OnRenderPass (DrawIndexedPrimitivesIndirect buffer offsetInBytes drawCount stride)) cb)"

definition SDL_GpuEndRenderPass :: "ptr \<Rightarrow> CommandBuffer \<Rightarrow> CommandBuffer" where
  "SDL_GpuEndRenderPass renderPass cb =
    (if renderPass = NULL then cb
     else if debugMode (device cb) \<and> \<not> renderPass_inProgress cb then cb
     else (delegate (OnRenderPass EndRenderPass) cb)
          \<lparr>renderPass_inProgress := False, graphicsPipelineBound := False\<rparr>)"

subsection \<open>Compute pass\<close>

definition SDL_GpuBeginComputePass ::
  "ptr \<Rightarrow> ptr \<Rightarrow> 32 word \<Rightarrow> ptr \<Rightarrow> 32 word \<Rightarrow> CommandBuffer \<Rightarrow> ptr \<times> CommandBuffer" where
  "SDL_GpuBeginComputePass commandBuffer storageTextureBindings storageTextureBindingCount
      storageBufferBindings storageBufferBindingCount cb =
    (if commandBuffer = NULL then (NULL, cb)
     else if storageTextureBindings = NULL \<and> storageTextureBindingCount > 0 then (NULL, cb)
     else if storageBufferBindings = NULL \<and> storageBufferBindingCount > 0 then (NULL, cb)
     else if storageTextureBindingCount > MAX_COMPUTE_WRITE_TEXTURES then (NULL, cb)
     else if storageBufferBindingCount > MAX_COMPUTE_WRITE_BUFFERS then (NULL, cb)
     else if debugMode (device cb) \<and> submitted cb then (NULL, cb)
     else if debugMode (device cb) \<and> any_pass_in_progress cb then (NULL, cb)
     else (Valid,
           (delegate (OnCommandBuffer (BeginComputePass storageTextureBindings storageTextureBindingCount
                        storageBufferBindings storageBufferBindingCount)) cb)
           \<lparr>computePass_inProgress := True\<rparr>))"

definition SDL_GpuBindComputePipeline :: "ptr \<Rightarrow> ptr \<Rightarrow> CommandBuffer \<Rightarrow> CommandBuffer" where
  "SDL_GpuBindComputePipeline computePass computePipeline cb =
    (if computePass = NULL then cb
     else if computePipeline = NULL then cb
     else if debugMode (device cb) \<and> \<not> computePass_inProgress cb then cb
     else (delegate (OnComputePass (BindComputePipeline computePipeline)) cb)\<lparr>computePipelineBound := True\<rparr>)"

definition SDL_GpuBindComputeStorageTextures ::
  "ptr \<Rightarrow> 32 word \<Rightarrow> ptr \<Rightarrow> 32 word \<Rightarrow> CommandBuffer \<Rightarrow> CommandBuffer" where
  "SDL_GpuBindComputeStorageTextures computePass firstSlot storageTextures bindingCount cb =
    (if computePass = NULL then cb
     else if storageTextures = NULL \<and> bindingCount > 0 then cb
     else if debugMode (device cb) \<and> \<not> computePass_inProgress cb then cb
     else delegate (OnComputePass (BindComputeStorageTextures firstSlot storageTextures bindingCount)) cb)"

definition SDL_GpuBindComputeStorageBuffers ::
  "ptr \<Rightarrow> 32 word \<Rightarrow> ptr \<Rightarrow> 32 word \<Rightarrow> CommandBuffer \<Rightarrow> CommandBuffer" where
  "SDL_GpuBindComputeStorageBuffers computePass firstSlot storageBuffers bindingCount cb =
    (if computePass = NULL then cb
     else if storageBuffers = NULL \<and> bindingCount > 0 then cb
     else if debugMode (device cb) \<and> \<not> computePass_inProgress cb then cb
     else delegate (OnComputePass (BindComputeStorageBuffers firstSlot storageBuffers bindingCount)) cb)"

definition SDL_GpuDispatchCompute ::
  "ptr \<Rightarrow> 32 word \<Rightarrow> 32 word \<Rightarrow> 32 word \<Rightarrow> CommandBuffer \<Rightarrow> CommandBuffer" where
  "SDL_GpuDispatchCompute computePass groupCountX groupCountY groupCountZ cb =
    (if computePass = NULL then cb
     else if debugMode (device cb) \<and> \<not> computePass_inProgress cb then cb
     else if debugMode (device cb) \<and> \<not> computePipelineBound cb then cb
     else delegate (OnComputePass (DispatchCompute groupCountX groupCountY groupCountZ)) cb)"

text \<open>\<^verbatim>\<open>SDL_GpuDispatchComputeIndirect\<close> does not test \<open>buffer\<close> against \<^verbatim>\<open>NULL\<close>.\<close>

definition SDL_GpuDispatchComputeIndirect ::
  "ptr \<Rightarrow> ptr \<Rightarrow> 32 word \<Rightarrow> CommandBuffer \<Rightarrow> CommandBuffer" where
  "SDL_GpuDispatchComputeIndirect computePass buffer offsetInBytes cb =
    (if computePass = NULL then cb
     else if debugMode (device cb) \<and> \<not> computePass_inProgress cb then cb
     else if debugMode (device cb) \<and> \<not> computePipelineBound cb then cb
     else delegate (OnComputePass (DispatchComputeIndirect buffer offsetInBytes)) cb)"

definition SDL_GpuEndComputePass :: "ptr \<Rightarrow> CommandBuffer \<Rightarrow> CommandBuffer" where
  "SDL_GpuEndComputePass computePass cb =
    (if computePass = NULL then cb
     else if debugMode (device cb) \<and> \<not> computePass_inProgress cb then cb
     else (delegate (OnComputePass EndComputePass) cb)
          \<lparr>computePass_inProgress := False, computePipelineBound := False\<rparr>)"

subsection \<open>Copy pass\<close>

definition SDL_GpuBeginCopyPass :: "ptr \<Rightarrow> CommandBuffer \<Rightarrow> ptr \<times> CommandBuffer" where
  "SDL_GpuBeginCopyPass commandBuffer cb =
    (if commandBuffer = NULL then (NULL, cb)
     else if debugMode (device cb) \<and> submitted cb then (NULL, cb)
     else if debugMode (device cb) \<and> any_pass_in_progress cb then (NULL, cb)
     else (Valid, (delegate (OnCommandBuffer BeginCopyPass) cb)\<lparr>copyPass_inProgress := True\<rparr>))"

definition SDL_GpuUploadToTexture :: "ptr \<Rightarrow> ptr \<Rightarrow> ptr \<Rightarrow> CommandBuffer \<Rightarrow> CommandBuffer" where
  "SDL_GpuUploadToTexture copyPass source destination cb =
    (if copyPass = NULL then cb
     else if source = NULL then cb
     else if destination = NULL then cb
     else if debugMode (device cb) \<and> \<not> copyPass_inProgress cb then cb
     else delegate (OnCopyPass (UploadToTexture source destination)) cb)"

text \<open>The remaining transfer calls of the copy pass have no debug-mode check.\<close>

definition SDL_GpuUploadToBuffer :: "ptr \<Rightarrow> ptr \<Rightarrow> ptr \<Rightarrow> CommandBuffer \<Rightarrow> CommandBuffer" where
  "SDL_GpuUploadToBuffer copyPass source destination cb =
    (if copyPass = NULL then cb
     else if source = NULL then cb
     else if destination = NULL then cb
     else delegate (OnCopyPass (UploadToBuffer source destination)) cb)"

definition SDL_GpuCopyTextureToTexture :: "ptr \<Rightarrow> ptr \<Rightarrow> ptr \<Rightarrow> CommandBuffer \<Rightarrow> CommandBuffer" where
  "SDL_GpuCopyTextureToTexture copyPass source destination cb =
    (if copyPass = NULL then cb
     else if source = NULL then cb
     else if destination = NULL then cb
     else delegate (OnCopyPass (CopyTextureToTexture source destination)) cb)"

definition SDL_GpuCopyBufferToBuffer :: "ptr \<Rightarrow> ptr \<Rightarrow> ptr \<Rightarrow> CommandBuffer \<Rightarrow> CommandBuffer" where
  "SDL_GpuCopyBufferToBuffer copyPass source destination cb =
    (if copyPass = NULL then cb
     else if source = NULL then cb
     else if destination = NULL then cb
     else delegate (OnCopyPass (CopyBufferToBuffer source destination)) cb)"

definition SDL_GpuGenerateMipmaps :: "ptr \<Rightarrow> ptr \<Rightarrow> CommandBuffer \<Rightarrow> CommandBuffer" where
  "SDL_GpuGenerateMipmaps copyPass texture cb =
    (if copyPass = NULL then cb
     else if texture = NULL then cb
     else delegate (OnCopyPass (GenerateMipmaps texture)) cb)"

definition SDL_GpuDownloadFromTexture :: "ptr \<Rightarrow> ptr \<Rightarrow> ptr \<Rightarrow> CommandBuffer \<Rightarrow> CommandBuffer" where
  "SDL_GpuDownloadFromTexture copyPass source destination cb =
    (if copyPass = NULL then cb
     else if source = NULL then cb
     else if destination = NULL then cb
     else delegate (OnCopyPass (DownloadFromTexture source destination)) cb)"

definition SDL_GpuDownloadFromBuffer :: "ptr \<Rightarrow> ptr \<Rightarrow> ptr \<Rightarrow> CommandBuffer \<Rightarrow> CommandBuffer" where
  "SDL_GpuDownloadFromBuffer copyPass source destination cb =
    (if copyPass = NULL then cb
     else if source = NULL then cb
     else if destination = NULL then cb
     else delegate (OnCopyPass (DownloadFromBuffer source destination)) cb)"

definition SDL_GpuEndCopyPass :: "ptr \<Rightarrow> CommandBuffer \<Rightarrow> CommandBuffer" where
  "SDL_GpuEndCopyPass copyPass cb =
    (if copyPass = NULL then cb
     else if debugMode (device cb) \<and> \<not> copyPass_inProgress cb then cb
     else (delegate (OnCopyPass EndCopyPass) cb)\<lparr>copyPass_inProgress := False\<rparr>)"

subsection \<open>Blit, swapchain texture, submission\<close>

text \<open>
  \<^verbatim>\<open>SDL_GpuBlit\<close>: \<open>source\<close> and \<open>destination\<close> are the texture regions, \<open>None\<close> for a
  \<^verbatim>\<open>NULL\<close> region and otherwise the header of the region's texture.
\<close>

definition SDL_GpuBlit ::
  "ptr \<Rightarrow> TextureCommonHeader option \<Rightarrow> TextureCommonHeader option \<Rightarrow> CommandBuffer \<Rightarrow> CommandBuffer" where
  "SDL_GpuBlit commandBuffer source destination cb =
    (if commandBuffer = NULL then cb
     else case source of None \<Rightarrow> cb | Some srcHeader \<Rightarrow>
       (case destination of None \<Rightarrow> cb | Some dstHeader \<Rightarrow>
         (if debugMode (device cb) \<and> submitted cb then cb
          else if debugMode (device cb) \<and>
                  (SAMPLER_BIT \<notin> usageFlags srcHeader \<or>
                   COLOR_TARGET_BIT \<notin> usageFlags dstHeader \<or>
                   (layerCount srcHeader > 1 \<or> layerCount dstHeader > 1) \<or>
                   (depth srcHeader > 1 \<or> depth dstHeader > 1)) then cb
          else delegate (OnCommandBuffer (Blit source destination)) cb)))"

text \<open>
  The two entry points that return what the back end returns take that value as their
  last argument before the command buffer.
\<close>

definition SDL_GpuAcquireSwapchainTexture ::
  "ptr \<Rightarrow> ptr \<Rightarrow> ptr \<Rightarrow> ptr \<Rightarrow> ptr \<Rightarrow> CommandBuffer \<Rightarrow> ptr \<times> CommandBuffer" where
  "SDL_GpuAcquireSwapchainTexture commandBuffer window pWidth pHeight backendTexture cb =
    (if commandBuffer = NULL then (NULL, cb)
     else if window = NULL then (NULL, cb)
     else if pWidth = NULL then (NULL, cb)
     else if pHeight = NULL then (NULL, cb)
     else if debugMode (device cb) \<and> submitted cb then (NULL, cb)
     else (backendTexture, delegate (OnCommandBuffer (AcquireSwapchainTexture window pWidth pHeight)) cb))"

definition SDL_GpuSubmit :: "ptr \<Rightarrow> CommandBuffer \<Rightarrow> CommandBuffer" where
  "SDL_GpuSubmit commandBuffer cb =
    (if commandBuffer = NULL then cb
     else if debugMode (device cb) \<and> submitted cb then cb
     else if debugMode (device cb) \<and>
             (renderPass_inProgress cb \<or> computePass_inProgress cb \<or> copyPass_inProgress cb) then cb
     else delegate (OnCommandBuffer Submit) (cb\<lparr>submitted := True\<rparr>))"

definition SDL_GpuSubmitAndAcquireFence :: "ptr \<Rightarrow> ptr \<Rightarrow> CommandBuffer \<Rightarrow> ptr \<times> CommandBuffer" where
  "SDL_GpuSubmitAndAcquireFence commandBuffer backendFence cb =
    (if commandBuffer = NULL then (NULL, cb)
     else if debugMode (device cb) \<and> submitted cb then (NULL, cb)
     else if debugMode (device cb) \<and>
             (renderPass_inProgress cb \<or> computePass_inProgress cb \<or> copyPass_inProgress cb) then (NULL, cb)
     else (backendFence, delegate (OnCommandBuffer SubmitAndAcquireFence) (cb\<lparr>submitted := True\<rparr>)))"

subsection \<open>One call of the public interface\<close>

text \<open>
  A call \<open>c\<close> made with handle \<open>h\<close> on the command buffer \<open>cb\<close>: the pointer returned
  (\<open>None\<close> for a \<^verbatim>\<open>void\<close> function) and the command buffer afterwards.  \<open>mx\<close> is
  \<^verbatim>\<open>MAX_COLOR_TARGET_BINDINGS\<close>, \<open>env\<close> the pointer the back end returns where the front end
  returns it.
\<close>

fun command_buffer_api ::
  "32 word \<Rightarrow> ptr \<Rightarrow> ptr \<Rightarrow> command_buffer_call \<Rightarrow> CommandBuffer \<Rightarrow> ptr option \<times> CommandBuffer" where
  "command_buffer_api mx env h (InsertDebugLabel t) cb = (None, SDL_GpuInsertDebugLabel h t cb)"
| "command_buffer_api mx env h (PushDebugGroup n) cb = (None, SDL_GpuPushDebugGroup h n cb)"
| "command_buffer_api mx env h PopDebugGroup cb = (None, SDL_GpuPopDebugGroup h cb)"
| "command_buffer_api mx env h (PushVertexUniformData s d l) cb = (None, SDL_GpuPushVertexUniformData h s d l cb)"
| "command_buffer_api mx env h (PushFragmentUniformData s d l) cb = (None, SDL_GpuPushFragmentUniformData h s d l cb)"
| "command_buffer_api mx env h (PushComputeUniformData s d l) cb = (None, SDL_GpuPushComputeUniformData h s d l cb)"
| "command_buffer_api mx env h (BeginRenderPass a n d) cb =
     (Some (fst (SDL_GpuBeginRenderPass mx h a n d cb)), snd (SDL_GpuBeginRenderPass mx h a n d cb))"
| "command_buffer_api mx env h (BeginComputePass t tn b bn) cb =
     (Some (fst (SDL_GpuBeginComputePass h t tn b bn cb)), snd (SDL_GpuBeginComputePass h t tn b bn cb))"
| "command_buffer_api mx env h BeginCopyPass cb =
     (Some (fst (SDL_GpuBeginCopyPass h cb)), snd (SDL_GpuBeginCopyPass h cb))"
| "command_buffer_api mx env h (Blit s d) cb = (None, SDL_GpuBlit h s d cb)"
| "command_buffer_api mx env h (AcquireSwapchainTexture w pw ph) cb =
     (Some (fst (SDL_GpuAcquireSwapchainTexture h w pw ph env cb)),
      snd (SDL_GpuAcquireSwapchainTexture h w pw ph env cb))"
| "command_buffer_api mx env h Submit cb = (None, SDL_GpuSubmit h cb)"
| "command_buffer_api mx env h SubmitAndAcquireFence cb =
     (Some (fst (SDL_GpuSubmitAndAcquireFence h env cb)), snd (SDL_GpuSubmitAndAcquireFence h env cb))"

fun render_pass_api :: "ptr \<Rightarrow> render_pass_call \<Rightarrow> CommandBuffer \<Rightarrow> CommandBuffer" where
  "render_pass_api h (BindGraphicsPipeline p) cb = SDL_GpuBindGraphicsPipeline h p cb"
| "render_pass_api h (SetViewport v) cb = SDL_GpuSetViewport h v cb"
| "render_pass_api h (SetScissor s) cb = SDL_GpuSetScissor h s cb"
| "render_pass_api h (BindVertexBuffers f b n) cb = SDL_GpuBindVertexBuffers h f b n cb"
| "render_pass_api h (BindIndexBuffer b) cb = SDL_GpuBindIndexBuffer h b cb"
| "render_pass_api h (BindVertexSamplers f b n) cb = SDL_GpuBindVertexSamplers h f b n cb"
| "render_pass_api h (BindVertexStorageTextures f b n) cb = SDL_GpuBindVertexStorageTextures h f b n cb"
| "render_pass_api h (BindVertexStorageBuffers f b n) cb = SDL_GpuBindVertexStorageBuffers h f b n cb"
| "render_pass_api h (BindFragmentSamplers f b n) cb = SDL_GpuBindFragmentSamplers h f b n cb"
| "render_pass_api h (BindFragmentStorageTextures f b n) cb = SDL_GpuBindFragmentStorageTextures h f b n cb"
| "render_pass_api h (BindFragmentStorageBuffers f b n) cb = SDL_GpuBindFragmentStorageBuffers h f b n cb"
| "render_pass_api h (DrawIndexedPrimitives b s v i) cb = SDL_GpuDrawIndexedPrimitives h b s v i cb"
| "render_pass_api h (DrawPrimitives s v) cb = SDL_GpuDrawPrimitives h s v cb"
| "render_pass_api h (DrawPrimitivesIndirect b off n st) cb = SDL_GpuDrawPrimitivesIndirect h b off n st cb"
| "render_pass_api h (DrawIndexedPrimitivesIndirect b off n st) cb =
     SDL_GpuDrawIndexedPrimitivesIndirect h b off n st cb"
| "render_pass_api h EndRenderPass cb = SDL_GpuEndRenderPass h cb"

fun compute_pass_api :: "ptr \<Rightarrow> compute_pass_call \<Rightarrow> CommandBuffer \<Rightarrow> CommandBuffer" where
  "compute_pass_api h (BindComputePipeline p) cb = SDL_GpuBindComputePipeline h p cb"
| "compute_pass_api h (BindComputeStorageTextures f b n) cb = SDL_GpuBindComputeStorageTextures h f b n cb"
| "compute_pass_api h (BindComputeStorageBuffers f b n) cb = SDL_GpuBindComputeStorageBuffers h f b n cb"
| "compute_pass_api h (DispatchCompute x y z) cb = SDL_GpuDispatchCompute h x y z cb"
| "compute_pass_api h (DispatchComputeIndirect b off) cb = SDL_GpuDispatchComputeIndirect h b off cb"
| "compute_pass_api h EndComputePass cb = SDL_GpuEndComputePass h cb"

fun copy_pass_api :: "ptr \<Rightarrow> copy_pass_call \<Rightarrow> CommandBuffer \<Rightarrow> CommandBuffer" where
  "copy_pass_api h (UploadToTexture s d) cb = SDL_GpuUploadToTexture h s d cb"
| "copy_pass_api h (UploadToBuffer s d) cb = SDL_GpuUploadToBuffer h s d cb"
| "copy_pass_api h (CopyTextureToTexture s d) cb = SDL_GpuCopyTextureToTexture h s d cb"
| "copy_pass_api h (CopyBufferToBuffer s d) cb = SDL_GpuCopyBufferToBuffer h s d cb"
| "copy_pass_api h (GenerateMipmaps t) cb = SDL_GpuGenerateMipmaps h t cb"
| "copy_pass_api h (DownloadFromTexture s d) cb = SDL_GpuDownloadFromTexture h s d cb"
| "copy_pass_api h (DownloadFromBuffer s d) cb = SDL_GpuDownloadFromBuffer h s d cb"
| "copy_pass_api h EndCopyPass cb = SDL_GpuEndCopyPass h cb"

fun api_call :: "32 word \<Rightarrow> ptr \<Rightarrow> ptr \<Rightarrow> gpu_call \<Rightarrow> CommandBuffer \<Rightarrow> ptr option \<times> CommandBuffer" where
  "api_call mx env h (OnCommandBuffer c) cb = command_buffer_api mx env h c cb"
| "api_call mx env h (OnRenderPass c) cb = (None, render_pass_api h c cb)"
| "api_call mx env h (OnComputePass c) cb = (None, compute_pass_api h c cb)"
| "api_call mx env h (OnCopyPass c) cb = (None, copy_pass_api h c cb)"

text \<open>A sequence of calls, each with its handle and the back end's answer.\<close>

fun api_run :: "32 word \<Rightarrow> (ptr \<times> ptr \<times> gpu_call) list \<Rightarrow> CommandBuffer \<Rightarrow> CommandBuffer" where
  "api_run mx [] cb = cb"
| "api_run mx ((env, h, c) # cs) cb = api_run mx cs (snd (api_call mx env h c cb))"


subsection \<open>Predicates on command buffers and calls\<close>

text \<open>At most one of the three pass-in-progress flags is set.\<close>

definition at_most_one_pass :: "CommandBuffer \<Rightarrow> bool" where
  "at_most_one_pass cb =
    (length (filter id [renderPass_inProgress cb, computePass_inProgress cb, copyPass_inProgress cb]) \<le> 1)"

text \<open>The three flags as a triple (render, compute, copy).\<close>

definition pass_flags :: "CommandBuffer \<Rightarrow> bool \<times> bool \<times> bool" where
  "pass_flags cb = (renderPass_inProgress cb, computePass_inProgress cb, copyPass_inProgress cb)"

text \<open>
  The calls that begin or end a pass, draw, dispatch or bind.  Uniform pushes, debug
  labels, transfers, blits, swapchain acquisition and submission are the others.
\<close>

fun is_pass_command :: "gpu_call \<Rightarrow> bool" where
  "is_pass_command (OnCommandBuffer (BeginRenderPass a n d)) = True"
| "is_pass_command (OnCommandBuffer (BeginComputePass t tn b bn)) = True"
| "is_pass_command (OnCommandBuffer BeginCopyPass) = True"
| "is_pass_command (OnCommandBuffer c) = False"
| "is_pass_command (OnRenderPass (SetViewport v)) = False"
| "is_pass_command (OnRenderPass (SetScissor s)) = False"
| "is_pass_command (OnRenderPass c) = True"
| "is_pass_command (OnComputePass c) = True"
| "is_pass_command (OnCopyPass EndCopyPass) = True"
| "is_pass_command (OnCopyPass c) = False"







text \<open>A command buffer of a device in debug mode and one of a device without, both idle.\<close>

definition idle_command_buffer :: "bool \<Rightarrow> CommandBuffer" where
  "idle_command_buffer dbg =
    \<lparr>device = \<lparr>backend = SDL_GPU_DRIVER_VULKAN, shaderFormats = {SHADERFORMAT_SPIRV}, debugMode = dbg\<rparr>,
     renderPass_inProgress = False, graphicsPipelineBound = False,
     computePass_inProgress = False, computePipelineBound = False,
     copyPass_inProgress = False, submitted = False, delegated = []\<rparr>"

section \<open>Front end: driver registry and device construction\<close>

text \<open>
  \<^verbatim>\<open>SDL_GpuBootstrap\<close>, one per compiled-in back end.  \<open>PrepareDriver\<close> is the answer of the
  back end's probe for the current video device; \<open>CreateDevice\<close> takes
  \<^verbatim>\<open>debugMode\<close> and \<^verbatim>\<open>preferLowPower\<close> and returns the device as the back end built it, or
  \<open>None\<close> for \<^verbatim>\<open>NULL\<close>.  The field \<^verbatim>\<open>shaderFormats\<close> of the bootstrap record is called
  \<open>driver_shaderFormats\<close> here, the device has a field of the same name.
\<close>

record SDL_GpuBootstrap =
  Name :: string
  backendflag :: SDL_GpuDriver
  driver_shaderFormats :: "SDL_GpuShaderFormatBit set"
  PrepareDriver :: bool
  CreateDevice :: "bool \<Rightarrow> bool \<Rightarrow> SDL_GpuDevice option"

text \<open>
  \<^verbatim>\<open>SDL_strcasecmp\<close> belongs to the C library layer, which is not among the sources; the
  model compares the two strings after mapping \<^verbatim>\<open>A\<close>-\<^verbatim>\<open>Z\<close> to lower case and answers whether
  the result is 0.
\<close>

definition ascii_lower :: "char \<Rightarrow> char" where
  "ascii_lower c =
    (if (65::nat) \<le> of_char c \<and> of_char c \<le> (90::nat) then char_of (of_char c + (32::nat)) else c)"

definition SDL_strcasecmp_is_0 :: "string \<Rightarrow> string \<Rightarrow> bool" where
  "SDL_strcasecmp_is_0 a b = (map ascii_lower a = map ascii_lower b)"

text \<open>The two loops of \<^verbatim>\<open>SDL_GpuSelectBackend\<close> over the \<^verbatim>\<open>NULL\<close>-terminated array.\<close>

fun select_named ::
  "string \<Rightarrow> SDL_GpuShaderFormatBit set \<Rightarrow> SDL_GpuBootstrap list \<Rightarrow> SDL_GpuDriver" where
  "select_named gpudriver formatFlags [] = SDL_GPU_DRIVER_INVALID"
| "select_named gpudriver formatFlags (b # bs) =
    (if SDL_strcasecmp_is_0 gpudriver (Name b)
        \<and> driver_shaderFormats b \<inter> formatFlags \<noteq> {}
        \<and> PrepareDriver b
     then backendflag b
     else select_named gpudriver formatFlags bs)"

fun select_first_prepared :: "SDL_GpuBootstrap list \<Rightarrow> SDL_GpuDriver" where
  "select_first_prepared [] = SDL_GPU_DRIVER_INVALID"
| "select_first_prepared (b # bs) =
    (if PrepareDriver b then backendflag b else select_first_prepared bs)"

definition SDL_GpuSelectBackend ::
  "SDL_GpuBootstrap list \<Rightarrow> string option \<Rightarrow> SDL_GpuShaderFormatBit set \<Rightarrow> SDL_GpuDriver" where
  "SDL_GpuSelectBackend backends gpudriver formatFlags =
    (case gpudriver of
       Some g \<Rightarrow> select_named g formatFlags backends
     | None \<Rightarrow> select_first_prepared backends)"

text \<open>
  The properties that \<^verbatim>\<open>SDL_GpuCreateDeviceWithProperties\<close> reads; \<open>None\<close> is a property
  that is not set, for which \<^verbatim>\<open>SDL_GetBooleanProperty\<close> returns the default it is given.
\<close>

record create_properties =
  SHADERS_SECRET_BOOL :: "bool option"
  SHADERS_SPIRV_BOOL :: "bool option"
  SHADERS_DXBC_BOOL :: "bool option"
  SHADERS_DXIL_BOOL :: "bool option"
  SHADERS_MSL_BOOL :: "bool option"
  SHADERS_METALLIB_BOOL :: "bool option"
  DEBUGMODE_BOOL :: "bool option"
  PREFERLOWPOWER_BOOL :: "bool option"
  NAME_STRING :: "string option"

definition SDL_GetBooleanProperty :: "bool option \<Rightarrow> bool \<Rightarrow> bool" where
  "SDL_GetBooleanProperty p dflt = (case p of None \<Rightarrow> dflt | Some b \<Rightarrow> b)"

text \<open>The value of \<^verbatim>\<open>formatFlags\<close> after the six tests of the properties.\<close>

definition requested_formatFlags :: "create_properties \<Rightarrow> SDL_GpuShaderFormatBit set" where
  "requested_formatFlags props =
    (if SDL_GetBooleanProperty (SHADERS_SECRET_BOOL props) False then {SHADERFORMAT_SECRET} else {})
    \<union> (if SDL_GetBooleanProperty (SHADERS_SPIRV_BOOL props) False then {SHADERFORMAT_SPIRV} else {})
    \<union> (if SDL_GetBooleanProperty (SHADERS_DXBC_BOOL props) False then {SHADERFORMAT_DXBC} else {})
    \<union> (if SDL_GetBooleanProperty (SHADERS_DXIL_BOOL props) False then {SHADERFORMAT_DXIL} else {})
    \<union> (if SDL_GetBooleanProperty (SHADERS_MSL_BOOL props) False then {SHADERFORMAT_MSL} else {})
    \<union> (if SDL_GetBooleanProperty (SHADERS_METALLIB_BOOL props) False then {SHADERFORMAT_METALLIB} else {})"

text \<open>
  The loop of \<^verbatim>\<open>SDL_GpuCreateDeviceWithProperties\<close> over the back ends: the first one whose
  \<^verbatim>\<open>backendflag\<close> is the selected one and whose \<^verbatim>\<open>CreateDevice\<close> succeeds gives the device,
  with the three front-end fields written into it.
\<close>

fun create_on_selected ::
  "SDL_GpuDriver \<Rightarrow> bool \<Rightarrow> bool \<Rightarrow> SDL_GpuBootstrap list \<Rightarrow> SDL_GpuDevice option" where
  "create_on_selected selectedBackend dbg lowPower [] = None"
| "create_on_selected selectedBackend dbg lowPower (b # bs) =
    (if backendflag b = selectedBackend then
       (case CreateDevice b dbg lowPower of
          Some result \<Rightarrow>
            Some (result\<lparr>backend := backendflag b,
                         shaderFormats := driver_shaderFormats b,
                         debugMode := dbg\<rparr>)
        | None \<Rightarrow> create_on_selected selectedBackend dbg lowPower bs)
     else create_on_selected selectedBackend dbg lowPower bs)"

text \<open>
  \<^verbatim>\<open>SDL_GpuCreateDeviceWithProperties\<close>: \<open>video\<close> is \<^verbatim>\<open>SDL_GetVideoDevice()\<close>, \<open>hint\<close> the value
  of \<^verbatim>\<open>SDL_HINT_GPU_DRIVER\<close>, \<open>backends\<close> the registry.
\<close>

definition SDL_GpuCreateDeviceWithProperties ::
  "SDL_GpuBootstrap list \<Rightarrow> ptr \<Rightarrow> string option \<Rightarrow> create_properties \<Rightarrow> SDL_GpuDevice option" where
  "SDL_GpuCreateDeviceWithProperties backends video hint props =
    (if video = NULL then None
     else
       let formatFlags = requested_formatFlags props;
           dbg = SDL_GetBooleanProperty (DEBUGMODE_BOOL props) True;
           preferLowPower = SDL_GetBooleanProperty (PREFERLOWPOWER_BOOL props) True;
           gpudriver = (case hint of None \<Rightarrow> NAME_STRING props | Some g \<Rightarrow> Some g);
           selectedBackend = SDL_GpuSelectBackend backends gpudriver formatFlags
       in if selectedBackend \<noteq> SDL_GPU_DRIVER_INVALID
          then create_on_selected selectedBackend dbg preferLowPower backends
          else None)"

text \<open>\<^verbatim>\<open>SDL_GpuCreateDevice\<close> builds the properties from its arguments and calls the above.\<close>

definition SDL_GpuCreateDevice ::
  "SDL_GpuBootstrap list \<Rightarrow> ptr \<Rightarrow> string option \<Rightarrow>
   SDL_GpuShaderFormatBit set \<Rightarrow> bool \<Rightarrow> bool \<Rightarrow> string option \<Rightarrow> SDL_GpuDevice option" where
  "SDL_GpuCreateDevice backends video hint formatFlags dbg preferLowPower name =
    SDL_GpuCreateDeviceWithProperties backends video hint
      \<lparr>SHADERS_SECRET_BOOL = (if SHADERFORMAT_SECRET \<in> formatFlags then Some True else None),
       SHADERS_SPIRV_BOOL = (if SHADERFORMAT_SPIRV \<in> formatFlags then Some True else None),
       SHADERS_DXBC_BOOL = (if SHADERFORMAT_DXBC \<in> formatFlags then Some True else None),
       SHADERS_DXIL_BOOL = (if SHADERFORMAT_DXIL \<in> formatFlags then Some True else None),
       SHADERS_MSL_BOOL = (if SHADERFORMAT_MSL \<in> formatFlags then Some True else None),
       SHADERS_METALLIB_BOOL = (if SHADERFORMAT_METALLIB \<in> formatFlags then Some True else None),
       DEBUGMODE_BOOL = Some dbg,
       PREFERLOWPOWER_BOOL = Some preferLowPower,
       NAME_STRING = name\<rparr>"

text \<open>A registry of two back ends for the examples: Metal, then Vulkan; both can be prepared.\<close>

definition blank_device :: SDL_GpuDevice where
  "blank_device = \<lparr>backend = SDL_GPU_DRIVER_INVALID, shaderFormats = {}, debugMode = False\<rparr>"

definition example_backends :: "SDL_GpuBootstrap list" where
  "example_backends =
    [\<lparr>Name = ''Metal'', backendflag = SDL_GPU_DRIVER_METAL,
      driver_shaderFormats = {SHADERFORMAT_MSL, SHADERFORMAT_METALLIB},
      PrepareDriver = True, CreateDevice = (\<lambda>dbg low. Some blank_device)\<rparr>,
     \<lparr>Name = ''Vulkan'', backendflag = SDL_GPU_DRIVER_VULKAN,
      driver_shaderFormats = {SHADERFORMAT_SPIRV},
      PrepareDriver = True, CreateDevice = (\<lambda>dbg low. Some blank_device)\<rparr>]"

section \<open>Direct3D 12 back end: root signature and graphics pipeline\<close>

datatype D3D12_DESCRIPTOR_RANGE_TYPE =
  RANGE_TYPE_SRV | RANGE_TYPE_UAV | RANGE_TYPE_CBV | RANGE_TYPE_SAMPLER

datatype D3D12_SHADER_VISIBILITY = SHADER_VISIBILITY_ALL | SHADER_VISIBILITY_OTHER nat

record D3D12_DESCRIPTOR_RANGE =
  RangeType :: D3D12_DESCRIPTOR_RANGE_TYPE
  NumDescriptors :: "32 word"
  BaseShaderRegister :: "32 word"
  RegisterSpace :: "32 word"
  OffsetInDescriptorsFromTableStart :: "32 word"

text \<open>
  A root parameter of type \<^verbatim>\<open>D3D12_ROOT_PARAMETER_TYPE_DESCRIPTOR_TABLE\<close> (the only type
  the back end builds): the ranges of its table and its visibility.
\<close>

record D3D12_ROOT_PARAMETER =
  DescriptorTable :: "D3D12_DESCRIPTOR_RANGE list"
  ShaderVisibility :: D3D12_SHADER_VISIBILITY

datatype D3D12_ROOT_SIGNATURE_FLAGS = ALLOW_INPUT_ASSEMBLER_INPUT_LAYOUT | ROOT_SIGNATURE_FLAG_NONE

text \<open>
  A root signature is the description it was created from
  (\<^verbatim>\<open>D3D12_ROOT_SIGNATURE_DESC\<close>; \<^verbatim>\<open>NumParameters\<close> is the length of \<open>pParameters\<close>).
\<close>

record D3D12_ROOT_SIGNATURE_DESC =
  pParameters :: "D3D12_ROOT_PARAMETER list"
  NumStaticSamplers :: "32 word"
  Flags :: D3D12_ROOT_SIGNATURE_FLAGS

definition MAX_ROOT_SIGNATURE_PARAMETERS :: nat where "MAX_ROOT_SIGNATURE_PARAMETERS = 64"

definition D3D12_DESCRIPTOR_RANGE_OFFSET_APPEND :: "32 word" where
  "D3D12_DESCRIPTOR_RANGE_OFFSET_APPEND = 0xffffffff"

text \<open>
  Whether the three native calls of pipeline creation succeed:
  \<^verbatim>\<open>D3D12SerializeRootSignature\<close>, \<^verbatim>\<open>ID3D12Device_CreateRootSignature\<close> and
  \<^verbatim>\<open>ID3D12Device_CreateGraphicsPipelineState\<close>.
\<close>

record D3D12_native =
  serialize_succeeds :: bool
  create_root_signature_succeeds :: bool
  create_pipeline_state_succeeds :: bool

text \<open>
  One of the four blocks of \<^verbatim>\<open>D3D12_INTERNAL_CreateRootSignature\<close>: with a positive count,
  fail when the parameter array is full, else append one descriptor table holding one
  range of that many descriptors.  \<open>None\<close> is the early \<^verbatim>\<open>return NULL\<close>.
\<close>

definition add_descriptor_table ::
  "D3D12_DESCRIPTOR_RANGE_TYPE \<Rightarrow> 32 word \<Rightarrow> D3D12_ROOT_PARAMETER list option \<Rightarrow>
   D3D12_ROOT_PARAMETER list option" where
  "add_descriptor_table ty n st =
    (case st of None \<Rightarrow> None
     | Some rootParameters \<Rightarrow>
        if n > 0 then
          (if length rootParameters \<ge> MAX_ROOT_SIGNATURE_PARAMETERS then None
           else Some (rootParameters @
             [\<lparr>DescriptorTable =
                 [\<lparr>RangeType = ty, NumDescriptors = n, BaseShaderRegister = 0, RegisterSpace = 0,
                   OffsetInDescriptorsFromTableStart = D3D12_DESCRIPTOR_RANGE_OFFSET_APPEND\<rparr>],
               ShaderVisibility = SHADER_VISIBILITY_ALL\<rparr>]))
        else Some rootParameters)"

definition D3D12_INTERNAL_CreateRootSignature ::
  "D3D12_native \<Rightarrow> 32 word \<Rightarrow> 32 word \<Rightarrow> 32 word \<Rightarrow> 32 word \<Rightarrow> D3D12_ROOT_SIGNATURE_DESC option" where
  "D3D12_INTERNAL_CreateRootSignature native nSamplers nUniformBuffers nStorageBuffers nStorageTextures =
    (case add_descriptor_table RANGE_TYPE_SAMPLER nSamplers
           (add_descriptor_table RANGE_TYPE_UAV nStorageTextures
             (add_descriptor_table RANGE_TYPE_UAV nStorageBuffers
               (add_descriptor_table RANGE_TYPE_CBV nUniformBuffers (Some [])))) of
       None \<Rightarrow> None
     | Some rootParameters \<Rightarrow>
        if \<not> serialize_succeeds native then None
        else if \<not> create_root_signature_succeeds native then None
        else Some \<lparr>pParameters = rootParameters, NumStaticSamplers = 0,
                   Flags = ALLOW_INPUT_ASSEMBLER_INPUT_LAYOUT\<rparr>)"

text \<open>
  \<^verbatim>\<open>D3D12_INTERNAL_ConvertRasterizerState\<close> fails exactly on a front face that is neither
  of the two enumerants; the other three conversions of the create-info cannot fail on the
  non-\<^verbatim>\<open>NULL\<close> descriptors they are given here.
\<close>

definition D3D12_INTERNAL_ConvertRasterizerState :: "SDL_GpuFrontFace \<Rightarrow> bool" where
  "D3D12_INTERNAL_ConvertRasterizerState ff =
    (case ff of FRONTFACE_COUNTER_CLOCKWISE \<Rightarrow> True | FRONTFACE_CLOCKWISE \<Rightarrow> True
     | FrontFaceOther k \<Rightarrow> False)"

text \<open>
  \<^verbatim>\<open>struct D3D12GraphicsPipeline\<close>; the native pipeline state object and the blend
  constants (copied from the create-info) are left out.
\<close>

record D3D12GraphicsPipeline =
  rootSignature :: D3D12_ROOT_SIGNATURE_DESC
  pipeline_primitiveType :: nat
  stencilRef :: "32 word"
  vertexSamplerCount :: "32 word"
  vertexUniformBufferCount :: "32 word"
  vertexStorageBufferCount :: "32 word"
  vertexStorageTextureCount :: "32 word"
  fragmentSamplerCount :: "32 word"
  fragmentUniformBufferCount :: "32 word"
  fragmentStorageBufferCount :: "32 word"
  fragmentStorageTextureCount :: "32 word"

definition D3D12_CreateGraphicsPipeline ::
  "D3D12_native \<Rightarrow> SDL_GpuGraphicsPipelineCreateInfo \<Rightarrow> D3D12GraphicsPipeline option" where
  "D3D12_CreateGraphicsPipeline native pipelineCreateInfo =
    (let vertShader = vertexShader pipelineCreateInfo;
         fragShader = fragmentShader pipelineCreateInfo;
         nSamplers = max (samplerCount vertShader) (samplerCount fragShader);
         nUniformBuffers = max (uniformBufferCount vertShader) (uniformBufferCount fragShader);
         nStorageBuffers = max (storageBufferCount vertShader) (storageBufferCount fragShader);
         nStorageTextures = max (storageTextureCount vertShader) (storageTextureCount fragShader)
     in if \<not> D3D12_INTERNAL_ConvertRasterizerState (frontFace pipelineCreateInfo) then None
        else case D3D12_INTERNAL_CreateRootSignature native nSamplers nUniformBuffers
                    nStorageBuffers nStorageTextures of
          None \<Rightarrow> None
        | Some rs \<Rightarrow>
           if \<not> create_pipeline_state_succeeds native then None
           else Some
             \<lparr>rootSignature = rs,
              pipeline_primitiveType = primitiveType pipelineCreateInfo,
              stencilRef = stencilReference pipelineCreateInfo,
              vertexSamplerCount = samplerCount vertShader,
              vertexUniformBufferCount = uniformBufferCount vertShader,
              vertexStorageBufferCount = storageBufferCount vertShader,
              vertexStorageTextureCount = storageTextureCount vertShader,
              fragmentSamplerCount = samplerCount fragShader,
              fragmentUniformBufferCount = uniformBufferCount fragShader,
              fragmentStorageBufferCount = storageBufferCount fragShader,
              fragmentStorageTextureCount = storageTextureCount fragShader\<rparr>)"

text \<open>
  The layout in the words of the specification: the four categories in the order CBV
  (uniform buffers), UAV (storage buffers), UAV (storage textures), SAMPLER, each with its
  count, the empty ones dropped.
\<close>

definition nonempty_categories ::
  "32 word \<Rightarrow> 32 word \<Rightarrow> 32 word \<Rightarrow> 32 word \<Rightarrow> (D3D12_DESCRIPTOR_RANGE_TYPE \<times> 32 word) list" where
  "nonempty_categories nUniformBuffers nStorageBuffers nStorageTextures nSamplers =
    filter (\<lambda>tn. snd tn \<noteq> 0)
      [(RANGE_TYPE_CBV, nUniformBuffers), (RANGE_TYPE_UAV, nStorageBuffers),
       (RANGE_TYPE_UAV, nStorageTextures), (RANGE_TYPE_SAMPLER, nSamplers)]"

text \<open>The root parameter that is one descriptor table of one range of \<open>n\<close> descriptors.\<close>

definition single_range_table :: "D3D12_DESCRIPTOR_RANGE_TYPE \<times> 32 word \<Rightarrow> D3D12_ROOT_PARAMETER" where
  "single_range_table tn =
    \<lparr>DescriptorTable =
       [\<lparr>RangeType = fst tn, NumDescriptors = snd tn, BaseShaderRegister = 0, RegisterSpace = 0,
         OffsetInDescriptorsFromTableStart = D3D12_DESCRIPTOR_RANGE_OFFSET_APPEND\<rparr>],
     ShaderVisibility = SHADER_VISIBILITY_ALL\<rparr>"

section \<open>Direct3D 12 back end: command recording\<close>

type_synonym FColor = "real \<times> real \<times> real \<times> real"

datatype SDL_GpuLoadOp = LOADOP_LOAD | LOADOP_CLEAR | LOADOP_DONT_CARE

datatype D3D12_RESOURCE_STATES = RESOURCE_STATE_PRESENT | RESOURCE_STATE_RENDER_TARGET

text \<open>
  \<^verbatim>\<open>struct D3D12Texture\<close>: the native resource and the render-target view are numbers that
  identify them; \<open>desc_Width\<close> (64 bits) and \<open>desc_Height\<close> are the extent in its
  \<^verbatim>\<open>D3D12_RESOURCE_DESC\<close>.
\<close>

record D3D12Texture =
  resource :: nat
  desc_Width :: "64 word"
  desc_Height :: "32 word"
  rtvHandle :: nat
  isRenderTarget :: bool

text \<open>
  \<^verbatim>\<open>SDL_GpuColorAttachmentInfo\<close> and \<^verbatim>\<open>SDL_GpuDepthStencilAttachmentInfo\<close>, with the texture
  and the mip level of the texture slice.
\<close>

record SDL_GpuColorAttachmentInfo =
  slice_texture :: D3D12Texture
  slice_mipLevel :: "32 word"
  clearColor :: FColor
  loadOp :: SDL_GpuLoadOp

record SDL_GpuDepthStencilAttachmentInfo =
  ds_texture :: D3D12Texture
  ds_mipLevel :: "32 word"

text \<open>
  What the back end records into the native command list and sends to the queue, the
  swapchain and the fence, with the arguments that vary.
\<close>

datatype d3d12_command =
  ResourceBarrier nat D3D12_RESOURCE_STATES D3D12_RESOURCE_STATES
| OMSetRenderTargets nat
| ClearRenderTargetView nat FColor
| RSSetViewports "32 word" "32 word"
| RSSetScissorRects "32 word" "32 word"
| SetPipelineStateAndRootSignature D3D12GraphicsPipeline
| SetGraphicsRootDescriptorTable "32 word" "nat option"
| CloseCommandList
| ExecuteCommandLists
| SwapChainPresent nat
| QueueSignal "64 word"
| WaitForFenceEvent "64 word"
| ResetAllocatorAndCommandList

text \<open>\<^verbatim>\<open>struct D3D12WindowData\<close>: the fields that acquisition and submission touch.\<close>

record D3D12WindowData =
  frameCounter :: "32 word"
  activeWindow :: bool

text \<open>
  \<^verbatim>\<open>struct D3D12Renderer\<close>: the uniform-buffer pool (an array of
  \<^verbatim>\<open>MAX_UNIFORM_BUFFER_POOL_SIZE\<close> pointers and the number in use) and the claimed windows by
  number.  A uniform buffer is the number that identifies it; \<open>None\<close> is \<^verbatim>\<open>NULL\<close>.
\<close>

record D3D12Renderer =
  uniformBufferPoolCount :: "32 word"
  uniformBufferPool :: "nat option list"
  windows :: "nat \<Rightarrow> D3D12WindowData"

text \<open>
  \<^verbatim>\<open>struct D3D12CommandBuffer\<close>: \<open>usedUniformBuffers\<close> is the allocated array, of
  \<open>usedUniformBufferCapacity\<close> slots; \<open>nextWindow\<close> is the chain of active windows, head
  first; \<open>commandList\<close> is everything recorded and queued so far.
\<close>

record D3D12CommandBuffer =
  commandList :: "d3d12_command list"
  fenceValue :: "64 word"
  nextWindow :: "nat list"
  colorAttachmentCount :: "32 word"
  colorAttachmentTexture :: "D3D12Texture option list"
  currentGraphicsPipeline :: "D3D12GraphicsPipeline option"
  vertexUniformBuffers :: "nat option list"
  fragmentUniformBuffers :: "nat option list"
  needVertexUniformBufferBind :: bool
  needFragmentUniformBufferBind :: bool
  usedUniformBufferCount :: "32 word"
  usedUniformBufferCapacity :: "32 word"
  usedUniformBuffers :: "nat option list"

definition record_command :: "d3d12_command \<Rightarrow> D3D12CommandBuffer \<Rightarrow> D3D12CommandBuffer" where
  "record_command c cb = cb\<lparr>commandList := commandList cb @ [c]\<rparr>"

subsection \<open>Render pass\<close>

text \<open>
  The extent of an attachment at its mip level, as \<^verbatim>\<open>D3D12_BeginRenderPass\<close> computes it:
  the height is shifted as an unsigned 32-bit number, the width is first converted to
  \<^verbatim>\<open>int\<close> and shifted as a signed one, then compared and stored as unsigned.  (A mip level
  of 32 or more is undefined behaviour in C.)
\<close>

definition mip_width :: "64 word \<Rightarrow> 32 word \<Rightarrow> 32 word" where
  "mip_width width mipLevel = signed_drop_bit (unat mipLevel) (ucast width)"

definition mip_height :: "32 word \<Rightarrow> 32 word \<Rightarrow> 32 word" where
  "mip_height height mipLevel = drop_bit (unat mipLevel) height"

text \<open>
  One round of the first loop: \<open>None\<close> once an attachment is not a render target (the
  function then returns without having recorded anything).
\<close>

definition shrink_framebuffer ::
  "D3D12Texture \<Rightarrow> 32 word \<Rightarrow> (32 word \<times> 32 word) option \<Rightarrow> (32 word \<times> 32 word) option" where
  "shrink_framebuffer tex mipLevel fb =
    (case fb of None \<Rightarrow> None
     | Some (framebufferWidth, framebufferHeight) \<Rightarrow>
        if \<not> isRenderTarget tex then None
        else Some (if mip_width (desc_Width tex) mipLevel < framebufferWidth
                   then mip_width (desc_Width tex) mipLevel else framebufferWidth,
                   if mip_height (desc_Height tex) mipLevel < framebufferHeight
                   then mip_height (desc_Height tex) mipLevel else framebufferHeight))"

fun framebuffer_extent ::
  "SDL_GpuColorAttachmentInfo list \<Rightarrow> (32 word \<times> 32 word) option \<Rightarrow> (32 word \<times> 32 word) option" where
  "framebuffer_extent [] fb = fb"
| "framebuffer_extent (info # infos) fb =
     framebuffer_extent infos (shrink_framebuffer (slice_texture info) (slice_mipLevel info) fb)"

text \<open>
  The second loop, from index \<open>i\<close>: the texture is noted in the command buffer, the
  transition barrier, the render target and the clear are recorded.  The clear is
  recorded for every attachment; \<open>loadOp\<close> is not read.
\<close>

fun begin_color_attachments ::
  "nat \<Rightarrow> SDL_GpuColorAttachmentInfo list \<Rightarrow> D3D12CommandBuffer \<Rightarrow> D3D12CommandBuffer" where
  "begin_color_attachments i [] cb = cb"
| "begin_color_attachments i (info # infos) cb =
     begin_color_attachments (Suc i) infos
       (record_command (ClearRenderTargetView (rtvHandle (slice_texture info)) (clearColor info))
         (record_command (OMSetRenderTargets (rtvHandle (slice_texture info)))
           (record_command (ResourceBarrier (resource (slice_texture info))
                              RESOURCE_STATE_PRESENT RESOURCE_STATE_RENDER_TARGET)
             (cb\<lparr>colorAttachmentTexture :=
                   (colorAttachmentTexture cb)[i := Some (slice_texture info)]\<rparr>))))"

text \<open>
  \<^verbatim>\<open>D3D12_BeginRenderPass\<close>; \<open>colorAttachmentInfos\<close> is the array of
  \<^verbatim>\<open>colorAttachmentCount\<close> elements.
\<close>

definition D3D12_BeginRenderPass ::
  "SDL_GpuColorAttachmentInfo list \<Rightarrow> SDL_GpuDepthStencilAttachmentInfo option \<Rightarrow>
   D3D12CommandBuffer \<Rightarrow> D3D12CommandBuffer" where
  "D3D12_BeginRenderPass colorAttachmentInfos depthStencilAttachmentInfo cb =
    (case (case depthStencilAttachmentInfo of
             None \<Rightarrow> framebuffer_extent colorAttachmentInfos (Some (0xffffffff, 0xffffffff))
           | Some ds \<Rightarrow> shrink_framebuffer (ds_texture ds) (ds_mipLevel ds)
                         (framebuffer_extent colorAttachmentInfos (Some (0xffffffff, 0xffffffff)))) of
       None \<Rightarrow> cb
     | Some (framebufferWidth, framebufferHeight) \<Rightarrow>
        record_command (RSSetScissorRects framebufferWidth framebufferHeight)
          (record_command (RSSetViewports framebufferWidth framebufferHeight)
            (begin_color_attachments 0 colorAttachmentInfos
              (cb\<lparr>colorAttachmentCount := of_nat (length colorAttachmentInfos)\<rparr>))))"

text \<open>\<^verbatim>\<open>D3D12_EndRenderPass\<close>: the loop over the noted attachments, from index \<open>i\<close>.\<close>

fun end_color_attachments :: "nat \<Rightarrow> nat \<Rightarrow> D3D12CommandBuffer \<Rightarrow> D3D12CommandBuffer" where
  "end_color_attachments i 0 cb = cb"
| "end_color_attachments i (Suc k) cb =
     end_color_attachments (Suc i) k
       (case colorAttachmentTexture cb ! i of
          None \<Rightarrow> cb
        | Some tex \<Rightarrow>
           record_command (ResourceBarrier (resource tex)
                             RESOURCE_STATE_RENDER_TARGET RESOURCE_STATE_PRESENT)
             (cb\<lparr>colorAttachmentTexture := (colorAttachmentTexture cb)[i := None]\<rparr>))"

definition D3D12_EndRenderPass :: "D3D12CommandBuffer \<Rightarrow> D3D12CommandBuffer" where
  "D3D12_EndRenderPass cb =
    (end_color_attachments 0 (unat (colorAttachmentCount cb)) cb)\<lparr>colorAttachmentCount := 0\<rparr>"

subsection \<open>Uniform buffers\<close>

text \<open>
  \<^verbatim>\<open>D3D12_INTERNAL_TrackUniformBuffer\<close>.  A buffer already among the first
  \<open>usedUniformBufferCount\<close> entries is not added again.  When the array is full it is
  reallocated with one more slot (the source then clears memory through the new,
  uninitialised slot, which is undefined behaviour the model leaves out) and the buffer is
  stored at index \<open>usedUniformBufferCount\<close>.
\<close>

definition D3D12_INTERNAL_TrackUniformBuffer ::
  "nat option \<Rightarrow> D3D12CommandBuffer \<Rightarrow> D3D12CommandBuffer" where
  "D3D12_INTERNAL_TrackUniformBuffer uniformBuffer cb =
    (if uniformBuffer \<in> set (take (unat (usedUniformBufferCount cb)) (usedUniformBuffers cb)) then cb
     else
       let cb1 = (if usedUniformBufferCount cb = usedUniformBufferCapacity cb
                  then cb\<lparr>usedUniformBufferCapacity := usedUniformBufferCapacity cb + 1,
                          usedUniformBuffers := usedUniformBuffers cb @ [None]\<rparr>
                  else cb)
       in cb1\<lparr>usedUniformBuffers :=
                 (usedUniformBuffers cb1)[unat (usedUniformBufferCount cb1) := uniformBuffer],
              usedUniformBufferCount := usedUniformBufferCount cb1 + 1\<rparr>)"

text \<open>
  \<^verbatim>\<open>D3D12_INTERNAL_AcquireUniformBufferFromPool\<close>: \<open>created\<close> is what
  \<^verbatim>\<open>D3D12_INTERNAL_CreateUniformBuffer\<close> returns when the pool is empty (\<open>None\<close> when the
  native allocation fails).  The result is the buffer, the renderer and the command buffer.
\<close>

definition D3D12_INTERNAL_AcquireUniformBufferFromPool ::
  "nat option \<Rightarrow> D3D12Renderer \<Rightarrow> D3D12CommandBuffer \<Rightarrow>
   nat option \<times> D3D12Renderer \<times> D3D12CommandBuffer" where
  "D3D12_INTERNAL_AcquireUniformBufferFromPool created renderer cb =
    (if uniformBufferPoolCount renderer > 0
     then (uniformBufferPool renderer ! (unat (uniformBufferPoolCount renderer) - 1),
           renderer\<lparr>uniformBufferPoolCount := uniformBufferPoolCount renderer - 1\<rparr>,
           D3D12_INTERNAL_TrackUniformBuffer
             (uniformBufferPool renderer ! (unat (uniformBufferPoolCount renderer) - 1)) cb)
     else (created, renderer, D3D12_INTERNAL_TrackUniformBuffer created cb))"




subsection \<open>Submission\<close>

text \<open>
  The loop of \<^verbatim>\<open>D3D12_Submit\<close> over the chain of active windows: each is unlinked and
  presented, and its frame counter becomes the swapchain's current back-buffer index
  (\<open>backBufferIndex\<close>, by window).
\<close>

fun present_windows ::
  "(nat \<Rightarrow> 32 word) \<Rightarrow> nat list \<Rightarrow> D3D12Renderer \<times> D3D12CommandBuffer \<Rightarrow>
   D3D12Renderer \<times> D3D12CommandBuffer" where
  "present_windows backBufferIndex [] st = st"
| "present_windows backBufferIndex (w # ws) (renderer, cb) =
     present_windows backBufferIndex ws
       (renderer\<lparr>windows := (windows renderer)
           (w := \<lparr>frameCounter = backBufferIndex w, activeWindow = False\<rparr>)\<rparr>,
        record_command (SwapChainPresent w) cb)"

text \<open>
  \<^verbatim>\<open>D3D12_Submit\<close>; \<open>completedValue\<close> is what \<^verbatim>\<open>ID3D12Fence_GetCompletedValue\<close> returns after
  the signal.  The function reads and writes neither the list of used uniform buffers nor
  the renderer's pool.
\<close>

definition D3D12_Submit ::
  "(nat \<Rightarrow> 32 word) \<Rightarrow> 64 word \<Rightarrow> D3D12Renderer \<times> D3D12CommandBuffer \<Rightarrow>
   D3D12Renderer \<times> D3D12CommandBuffer" where
  "D3D12_Submit backBufferIndex completedValue st =
    (case present_windows backBufferIndex (nextWindow (snd st))
            (fst st,
             (record_command ExecuteCommandLists (record_command CloseCommandList (snd st)))
               \<lparr>nextWindow := []\<rparr>) of
       (renderer, cb) \<Rightarrow>
         let fenceToWaitFor = fenceValue cb;
             cb1 = (record_command (QueueSignal fenceToWaitFor) cb)\<lparr>fenceValue := fenceValue cb + 1\<rparr>;
             cb2 = (if completedValue < fenceToWaitFor
                    then record_command (WaitForFenceEvent fenceToWaitFor) cb1 else cb1)
         in (renderer, record_command ResetAllocatorAndCommandList cb2))"



section \<open>The 2D renderer on the portable interface\<close>

datatype SDL_GpuPrimitiveType =
  PRIMITIVETYPE_POINTLIST | PRIMITIVETYPE_LINELIST | PRIMITIVETYPE_LINESTRIP
| PRIMITIVETYPE_TRIANGLELIST | PRIMITIVETYPE_TRIANGLESTRIP

datatype GPU_VertexShaderID =
  VERT_SHADER_LINEPOINT | VERT_SHADER_TRI_COLOR | VERT_SHADER_TRI_TEXTURE

datatype GPU_FragmentShaderID =
  FRAG_SHADER_COLOR | FRAG_SHADER_TEXTURE_RGB | FRAG_SHADER_TEXTURE_RGBA

text \<open>\<^verbatim>\<open>GPU_PipelineParameters\<close>, the key of the pipeline cache.\<close>

record GPU_PipelineParameters =
  blend_mode :: nat
  vert_shader :: GPU_VertexShaderID
  frag_shader :: GPU_FragmentShaderID
  primitive_type :: SDL_GpuPrimitiveType
  attachment_format :: nat

text \<open>
  The member \<^verbatim>\<open>draw\<close> of the command's union: first vertex offset and vertex count
  (\<^verbatim>\<open>size_t\<close>), blend mode, the texture (a pointer, compared as such; \<open>None\<close> is
  \<^verbatim>\<open>NULL\<close>) and its address mode.
\<close>

record draw_data =
  draw_first :: nat
  draw_count :: nat
  draw_blend :: nat
  draw_texture :: "nat option"
  draw_texture_address_mode :: nat

text \<open>
  \<^verbatim>\<open>SDL_RenderCommand\<close>: the tag with the payload that the renderer reads for it; the list
  of commands is the chain of \<^verbatim>\<open>next\<close> pointers.  Rectangles are x, y, w, h; a color
  command carries the color and \<^verbatim>\<open>color_scale\<close>.
\<close>

datatype SDL_RenderCommand =
  RENDERCMD_NO_OP
| RENDERCMD_SETVIEWPORT int int int int
| RENDERCMD_SETCLIPRECT bool int int int int
| RENDERCMD_SETDRAWCOLOR FColor real
| RENDERCMD_CLEAR FColor real
| RENDERCMD_DRAW_POINTS draw_data
| RENDERCMD_DRAW_LINES draw_data
| RENDERCMD_FILL_RECTS
| RENDERCMD_COPY
| RENDERCMD_COPY_EX
| RENDERCMD_GEOMETRY draw_data

text \<open>
  The calls of the portable interface that the renderer makes, in the order it makes them,
  with the arguments that vary.  A call on a render pass carries the pass handle, the
  submission carries the fence it returns (\<open>None\<close> for \<^verbatim>\<open>NULL\<close>).
\<close>

datatype render_request =
  GpuMapTransferBuffer
| GpuUnmapTransferBuffer
| GpuBeginCopyPass
| GpuUploadToBuffer nat
| GpuEndCopyPass
| GpuBeginRenderPass "nat option" SDL_GpuLoadOp FColor
| GpuEndRenderPass ptr
| GpuSetViewport ptr int int int int
| GpuSetScissor ptr int int int int
| GpuBindGraphicsPipeline ptr GPU_PipelineParameters
| GpuBindFragmentSamplers ptr nat nat nat
| GpuBindVertexBuffers ptr "32 word"
| GpuPushVertexUniformData int int FColor "nat option"
| GpuDrawPrimitives ptr "32 word" "32 word"
| GpuSubmitAndAcquireFence "nat option"
| GpuWaitForFences nat
| GpuReleaseFence nat
| GpuAcquireCommandBuffer
| GpuAcquireSwapchainTexture
| GpuGetSwapchainTextureFormat



text \<open>
  \<^verbatim>\<open>GPU_RenderData\<close>: the fields of its members \<^verbatim>\<open>swapchain\<close> and \<^verbatim>\<open>state\<close> that the modelled
  functions use, and the requests made so far.
\<close>

record GPU_RenderData =
  present_fence :: "nat option"
  swapchain_texture :: "nat option"
  swapchain_format :: nat
  state_render_pass :: ptr
  state_render_target :: "nat option"
  state_command_buffer :: ptr
  color_attachment_texture :: "nat option"
  color_attachment_clearColor :: FColor
  color_attachment_loadOp :: SDL_GpuLoadOp
  state_viewport :: "int \<times> int \<times> int \<times> int"
  state_scissor :: "int \<times> int \<times> int \<times> int"
  state_scissor_enabled :: bool
  state_draw_color :: FColor
  requests :: "render_request list"

definition request :: "render_request \<Rightarrow> GPU_RenderData \<Rightarrow> GPU_RenderData" where
  "request c data = data\<lparr>requests := requests data @ [c]\<rparr>"





subsection \<open>The command loop\<close>










subsection \<open>Presentation\<close>

text \<open>
  \<^verbatim>\<open>GPU_RenderPresent\<close>.  The arguments are what the portable interface returns during
  this call: the fence of \<^verbatim>\<open>SDL_GpuSubmitAndAcquireFence\<close>, the command buffer of
  \<^verbatim>\<open>SDL_GpuAcquireCommandBuffer\<close>, and the swapchain texture and format that
  \<^verbatim>\<open>RenewSwapchain\<close> reads.
\<close>

definition GPU_RenderPresent ::
  "nat option \<Rightarrow> ptr \<Rightarrow> nat option \<Rightarrow> nat \<Rightarrow> GPU_RenderData \<Rightarrow> GPU_RenderData" where
  "GPU_RenderPresent next_fence new_command_buffer new_texture new_format data =
    (let d1 = request (GpuSubmitAndAcquireFence next_fence) data;
         d2 = (case present_fence d1 of
                 Some f \<Rightarrow> request (GpuReleaseFence f) (request (GpuWaitForFences f) d1)
               | None \<Rightarrow> d1);
         d3 = d2\<lparr>present_fence := next_fence\<rparr>;
         d4 = (request GpuAcquireCommandBuffer d3)\<lparr>state_command_buffer := new_command_buffer\<rparr>;
         d5 = (request GpuAcquireSwapchainTexture d4)\<lparr>swapchain_texture := new_texture\<rparr>
     in if new_texture \<noteq> None
        then (request GpuGetSwapchainTextureFormat d5)\<lparr>swapchain_format := new_format\<rparr>
        else d5)"

text \<open>
  A sequence of frames, each of which ends with a call of \<^verbatim>\<open>GPU_RenderPresent\<close>; a frame is
  given by what the interface returns during that call.
\<close>

fun present_frames ::
  "(nat option \<times> ptr \<times> nat option \<times> nat) list \<Rightarrow> GPU_RenderData \<Rightarrow> GPU_RenderData" where
  "present_frames [] data = data"
| "present_frames ((next_fence, cbuf, tex, fmt) # frames) data =
     present_frames frames (GPU_RenderPresent next_fence cbuf tex fmt data)"

text \<open>The renderer as \<^verbatim>\<open>GPU_CreateRenderer\<close> leaves it, with a swapchain texture acquired.\<close>

definition created_renderer :: GPU_RenderData where
  "created_renderer =
    \<lparr>present_fence = None, swapchain_texture = Some 1, swapchain_format = 0,
     state_render_pass = NULL, state_render_target = None, state_command_buffer = Valid,
     color_attachment_texture = None, color_attachment_clearColor = (0, 0, 0, 0),
     color_attachment_loadOp = LOADOP_LOAD,
     state_viewport = (0, 0, 0, 0), state_scissor = (0, 0, 0, 0),
     state_scissor_enabled = False, state_draw_color = (1, 1, 1, 1), requests = []\<rparr>"

subsection \<open>Notions for the properties of the front end and the back end\<close>

text \<open>A submitted command buffer has no pass in progress.\<close>

definition submitted_idle :: "CommandBuffer \<Rightarrow> bool" where
  "submitted_idle cb = (\<not> (submitted cb \<and> any_pass_in_progress cb))"

text \<open>The clears among the commands recorded by the Direct3D 12 back end.\<close>

fun is_clear :: "d3d12_command \<Rightarrow> bool" where
  "is_clear (ClearRenderTargetView v c) = True"
| "is_clear other = False"



text \<open>
  The bookkeeping of the array of used uniform buffers is sound when
  \<open>usedUniformBufferCount\<close> slots are in use out of \<open>usedUniformBufferCapacity\<close>, the length
  of the array; the used buffers are those in the slots in use.
\<close>

definition used_list_sound :: "D3D12CommandBuffer \<Rightarrow> bool" where
  "used_list_sound cb =
    (unat (usedUniformBufferCount cb) \<le> unat (usedUniformBufferCapacity cb)
     \<and> length (usedUniformBuffers cb) = unat (usedUniformBufferCapacity cb))"

definition used_buffers :: "D3D12CommandBuffer \<Rightarrow> nat option set" where
  "used_buffers cb = set (take (unat (usedUniformBufferCount cb)) (usedUniformBuffers cb))"


subsection \<open>Notions for the properties of the renderer\<close>

text \<open>
  The fences that the submissions among the requests have returned and that no request
  has released yet, oldest first.
\<close>

fun outstanding_fences :: "render_request list \<Rightarrow> nat list \<Rightarrow> nat list" where
  "outstanding_fences [] held = held"
| "outstanding_fences (GpuSubmitAndAcquireFence (Some f) # rs) held = outstanding_fences rs (held @ [f])"
| "outstanding_fences (GpuReleaseFence f # rs) held = outstanding_fences rs (remove1 f held)"
| "outstanding_fences (other # rs) held = outstanding_fences rs held"

definition stored_fence :: "GPU_RenderData \<Rightarrow> nat list" where
  "stored_fence data = (case present_fence data of None \<Rightarrow> [] | Some f \<Rightarrow> [f])"

text \<open>
  What a request contributes to drawing: the primitive type of a pipeline it binds, the
  offset of a vertex buffer it binds, or the draw itself with its pass handle, first
  vertex and vertex count.
\<close>

datatype draw_event =
  BoundPrimitive SDL_GpuPrimitiveType
| BoundVertexOffset "32 word"
| Drawn ptr "32 word" "32 word"

fun draw_events :: "render_request \<Rightarrow> draw_event list" where
  "draw_events (GpuBindGraphicsPipeline pass params) = [BoundPrimitive (primitive_type params)]"
| "draw_events (GpuBindVertexBuffers pass offset) = [BoundVertexOffset offset]"
| "draw_events (GpuDrawPrimitives pass vertexStart vertexCount) = [Drawn pass vertexStart vertexCount]"
| "draw_events other = []"

definition draw_trace :: "render_request list \<Rightarrow> draw_event list" where
  "draw_trace rs = concat (map draw_events rs)"




fun draw_payload :: "SDL_RenderCommand \<Rightarrow> draw_data option" where
  "draw_payload (RENDERCMD_DRAW_POINTS c) = Some c"
| "draw_payload (RENDERCMD_DRAW_LINES c) = Some c"
| "draw_payload (RENDERCMD_GEOMETRY c) = Some c"
| "draw_payload other = None"

text \<open>The sum of the vertex counts of the commands of a run, in 32-bit arithmetic.\<close>

definition run_vertex_count :: "SDL_RenderCommand list \<Rightarrow> 32 word" where
  "run_vertex_count run =
    sum_list (map (\<lambda>c. case draw_payload c of Some e \<Rightarrow> of_nat (draw_count e) | None \<Rightarrow> 0) run)"






section \<open>Theorems\<close>

subsection \<open>Depth-format fallback of the front end\<close>

lemma paired_fallback_format_cases:
  "paired_fallback_format f =
    (case f of D24_UNORM \<Rightarrow> D32_SFLOAT | D32_SFLOAT \<Rightarrow> D24_UNORM
     | D24_UNORM_S8_UINT \<Rightarrow> D32_SFLOAT_S8_UINT | D32_SFLOAT_S8_UINT \<Rightarrow> D24_UNORM_S8_UINT
     | _ \<Rightarrow> D16_UNORM)"
  by (cases f) (simp_all add: paired_fallback_format_def)

text \<open>
  C10.  \<^verbatim>\<open>SDL_GpuCreateGraphicsPipeline\<close> may change the caller's create-info record.
  With a device and a create-info record: when a depth-stencil attachment is requested
  and the device does not support its format, the record's \<open>depthStencilFormat\<close> is
  overwritten in place by the paired fallback (D24 and D32 swap, D24S8 and D32S8 swap,
  anything else becomes D16), the back end is called with the overwritten record, and the
  only message is one warning; in every other case the record the caller passed is
  returned unchanged and nothing is logged.
\<close>

theorem create_graphics_pipeline_depth_fallback:
  "SDL_GpuCreateGraphicsPipeline supports create Valid (Some info) =
    (if depth_format_rejected supports info
     then (create (info\<lparr>attachmentInfo := (attachmentInfo info)
                      \<lparr>depthStencilFormat := paired_fallback_format (depthStencilFormat (attachmentInfo info))\<rparr>\<rparr>),
           Some (info\<lparr>attachmentInfo := (attachmentInfo info)
                      \<lparr>depthStencilFormat := paired_fallback_format (depthStencilFormat (attachmentInfo info))\<rparr>\<rparr>),
           [LogWarn_UnsupportedDepthFormat (depthStencilFormat (attachmentInfo info))
              (paired_fallback_format (depthStencilFormat (attachmentInfo info)))])
     else (create info, Some info, []))
   \<and> fst (snd (SDL_GpuCreateGraphicsPipeline supports create NULL caller_info)) = caller_info
   \<and> fst (snd (SDL_GpuCreateGraphicsPipeline supports create dev None)) = None"
  by (simp add: SDL_GpuCreateGraphicsPipeline_def depth_format_rejected_def
      paired_fallback_format_cases Let_def)

text \<open>An unsupported \<open>D24_UNORM\<close> request comes back as \<open>D32_SFLOAT\<close> in the caller's record.\<close>

theorem create_graphics_pipeline_depth_fallback_witness:
  "fst (snd (SDL_GpuCreateGraphicsPipeline (\<lambda>f t u. False) (\<lambda>i. Some (0::nat)) Valid
      (Some \<lparr>vertexShader = \<lparr>samplerCount = 0, uniformBufferCount = 1, storageBufferCount = 0, storageTextureCount = 0\<rparr>,
             fragmentShader = \<lparr>samplerCount = 1, uniformBufferCount = 0, storageBufferCount = 0, storageTextureCount = 0\<rparr>,
             frontFace = FRONTFACE_CLOCKWISE, primitiveType = 0, stencilReference = 0,
             attachmentInfo = \<lparr>hasDepthStencilAttachment = True,
                               depthStencilFormat = D24_UNORM\<rparr>\<rparr>)))
   = Some \<lparr>vertexShader = \<lparr>samplerCount = 0, uniformBufferCount = 1, storageBufferCount = 0, storageTextureCount = 0\<rparr>,
             fragmentShader = \<lparr>samplerCount = 1, uniformBufferCount = 0, storageBufferCount = 0, storageTextureCount = 0\<rparr>,
             frontFace = FRONTFACE_CLOCKWISE, primitiveType = 0, stencilReference = 0,
             attachmentInfo = \<lparr>hasDepthStencilAttachment = True,
                               depthStencilFormat = D32_SFLOAT\<rparr>\<rparr>"
  using create_graphics_pipeline_depth_fallback
    [of "\<lambda>f t u. False" "\<lambda>i. Some (0::nat)"
        "\<lparr>vertexShader = \<lparr>samplerCount = 0, uniformBufferCount = 1, storageBufferCount = 0, storageTextureCount = 0\<rparr>,
             fragmentShader = \<lparr>samplerCount = 1, uniformBufferCount = 0, storageBufferCount = 0, storageTextureCount = 0\<rparr>,
             frontFace = FRONTFACE_CLOCKWISE, primitiveType = 0, stencilReference = 0,
             attachmentInfo = \<lparr>hasDepthStencilAttachment = True,
                               depthStencilFormat = D24_UNORM\<rparr>\<rparr>"]
  by (simp add: depth_format_rejected_def paired_fallback_format_def)

subsection \<open>Front end: pass exclusion, submitted buffers, argument checks\<close>

named_theorems frontend_defs

lemmas frontend_entry_defs [frontend_defs] =
  SDL_GpuInsertDebugLabel_def SDL_GpuPushDebugGroup_def SDL_GpuPopDebugGroup_def
  SDL_GpuPushVertexUniformData_def SDL_GpuPushFragmentUniformData_def
  SDL_GpuPushComputeUniformData_def SDL_GpuBeginRenderPass_def SDL_GpuBindGraphicsPipeline_def
  SDL_GpuSetViewport_def SDL_GpuSetScissor_def SDL_GpuBindVertexBuffers_def
  SDL_GpuBindIndexBuffer_def SDL_GpuBindVertexSamplers_def SDL_GpuBindVertexStorageTextures_def
  SDL_GpuBindVertexStorageBuffers_def SDL_GpuBindFragmentSamplers_def
  SDL_GpuBindFragmentStorageTextures_def SDL_GpuBindFragmentStorageBuffers_def
  SDL_GpuDrawIndexedPrimitives_def SDL_GpuDrawPrimitives_def SDL_GpuDrawPrimitivesIndirect_def
  SDL_GpuDrawIndexedPrimitivesIndirect_def SDL_GpuEndRenderPass_def SDL_GpuBeginComputePass_def
  SDL_GpuBindComputePipeline_def SDL_GpuBindComputeStorageTextures_def
  SDL_GpuBindComputeStorageBuffers_def SDL_GpuDispatchCompute_def
  SDL_GpuDispatchComputeIndirect_def SDL_GpuEndComputePass_def SDL_GpuBeginCopyPass_def
  SDL_GpuUploadToTexture_def SDL_GpuUploadToBuffer_def SDL_GpuCopyTextureToTexture_def
  SDL_GpuCopyBufferToBuffer_def SDL_GpuGenerateMipmaps_def SDL_GpuDownloadFromTexture_def
  SDL_GpuDownloadFromBuffer_def SDL_GpuEndCopyPass_def SDL_GpuBlit_def
  SDL_GpuAcquireSwapchainTexture_def SDL_GpuSubmit_def SDL_GpuSubmitAndAcquireFence_def
  delegate_def any_pass_in_progress_def

lemma at_most_one_pass_iff:
  "at_most_one_pass cb =
    (\<not> (renderPass_inProgress cb \<and> computePass_inProgress cb) \<and>
     \<not> (renderPass_inProgress cb \<and> copyPass_inProgress cb) \<and>
     \<not> (computePass_inProgress cb \<and> copyPass_inProgress cb))"
  by (simp add: at_most_one_pass_def)

lemma api_call_device [simp]: "device (snd (api_call mx env h c cb)) = device cb"
proof (cases c)
  case (OnCommandBuffer x) then show ?thesis
    by (cases x) (simp_all add: frontend_defs split: option.splits)
next
  case (OnRenderPass x) then show ?thesis by (cases x) (simp_all add: frontend_defs)
next
  case (OnComputePass x) then show ?thesis by (cases x) (simp_all add: frontend_defs)
next
  case (OnCopyPass x) then show ?thesis by (cases x) (simp_all add: frontend_defs)
qed

lemma api_run_device [simp]: "device (api_run mx cs cb) = device cb"
  by (induction cs arbitrary: cb) auto

lemma api_call_at_most_one_pass:
  assumes "debugMode (device cb)" and "at_most_one_pass cb"
  shows "at_most_one_pass (snd (api_call mx env h c cb))"
proof (cases c)
  case (OnCommandBuffer x) with assms show ?thesis
    by (cases x) (auto simp: frontend_defs at_most_one_pass_iff split: option.splits)
next
  case (OnRenderPass x) with assms show ?thesis
    by (cases x) (auto simp: frontend_defs at_most_one_pass_iff)
next
  case (OnComputePass x) with assms show ?thesis
    by (cases x) (auto simp: frontend_defs at_most_one_pass_iff)
next
  case (OnCopyPass x) with assms show ?thesis
    by (cases x) (auto simp: frontend_defs at_most_one_pass_iff)
qed

lemma api_run_at_most_one_pass:
  "debugMode (device cb) \<Longrightarrow> at_most_one_pass cb \<Longrightarrow> at_most_one_pass (api_run mx cs cb)"
proof (induction cs arbitrary: cb)
  case Nil then show ?case by simp
next
  case (Cons a cs)
  obtain env h c where a: "a = (env, h, c)" by (cases a)
  show ?case unfolding a api_run.simps
    by (rule Cons.IH) (simp_all add: Cons.prems api_call_at_most_one_pass)
qed

lemma acquire_at_most_one_pass:
  "SDL_GpuAcquireCommandBuffer dev acquired = Some cb \<Longrightarrow>
     at_most_one_pass cb \<and> \<not> submitted cb \<and> (\<exists>d. dev = Some d \<and> device cb = d)"
  by (auto simp: SDL_GpuAcquireCommandBuffer_def at_most_one_pass_iff split: option.splits)


lemma begin_pass_refused_in_debug:
  assumes "debugMode (device cb)" and "any_pass_in_progress cb"
  shows "SDL_GpuBeginRenderPass mx h a n d cb = (NULL, cb)"
    and "SDL_GpuBeginComputePass h t tn b bn cb = (NULL, cb)"
    and "SDL_GpuBeginCopyPass h cb = (NULL, cb)"
  using assms
  by (simp_all add: SDL_GpuBeginRenderPass_def SDL_GpuBeginComputePass_def SDL_GpuBeginCopyPass_def)

lemma begin_pass_sets_own_flag_in_debug:
  assumes "debugMode (device cb)"
  shows "fst (SDL_GpuBeginRenderPass mx h a n d cb) = Valid \<Longrightarrow>
           pass_flags (snd (SDL_GpuBeginRenderPass mx h a n d cb)) = (True, False, False)"
    and "fst (SDL_GpuBeginComputePass h t tn b bn cb) = Valid \<Longrightarrow>
           pass_flags (snd (SDL_GpuBeginComputePass h t tn b bn cb)) = (False, True, False)"
    and "fst (SDL_GpuBeginCopyPass h cb) = Valid \<Longrightarrow>
           pass_flags (snd (SDL_GpuBeginCopyPass h cb)) = (False, False, True)"
  using assms
  by (auto simp: SDL_GpuBeginRenderPass_def SDL_GpuBeginComputePass_def SDL_GpuBeginCopyPass_def
      pass_flags_def delegate_def any_pass_in_progress_def split: if_splits)

lemma begin_pass_null_unchanged:
  shows "fst (SDL_GpuBeginRenderPass mx h a n d cb) = NULL \<Longrightarrow>
           snd (SDL_GpuBeginRenderPass mx h a n d cb) = cb"
    and "fst (SDL_GpuBeginComputePass h t tn b bn cb) = NULL \<Longrightarrow>
           snd (SDL_GpuBeginComputePass h t tn b bn cb) = cb"
    and "fst (SDL_GpuBeginCopyPass h cb) = NULL \<Longrightarrow> snd (SDL_GpuBeginCopyPass h cb) = cb"
  by (auto simp: SDL_GpuBeginRenderPass_def SDL_GpuBeginComputePass_def SDL_GpuBeginCopyPass_def
      split: if_splits)

lemma end_pass_flags:
  shows "pass_flags (SDL_GpuEndRenderPass h cb) =
           (if h = NULL then pass_flags cb
            else (False, computePass_inProgress cb, copyPass_inProgress cb))"
    and "pass_flags (SDL_GpuEndComputePass h cb) =
           (if h = NULL then pass_flags cb
            else (renderPass_inProgress cb, False, copyPass_inProgress cb))"
    and "pass_flags (SDL_GpuEndCopyPass h cb) =
           (if h = NULL then pass_flags cb
            else (renderPass_inProgress cb, computePass_inProgress cb, False))"
  by (auto simp: SDL_GpuEndRenderPass_def SDL_GpuEndComputePass_def SDL_GpuEndCopyPass_def
      pass_flags_def delegate_def)

text \<open>
  C1 (as amended).  On a device in debug mode the three pass flags exclude one another:
  a command buffer with at most one pass in progress keeps that property through every
  sequence of calls of the public interface (and a freshly acquired command buffer has
  it); each of the three begin-pass calls returns \<^verbatim>\<open>NULL\<close> and changes nothing while any
  pass is in progress, changes nothing whenever it returns \<^verbatim>\<open>NULL\<close>, and on success leaves
  exactly its own flag set; each end-pass call leaves the other two flags as they were
  and its own flag clear.
\<close>

theorem pass_exclusion_in_debug_mode:
  assumes "debugMode (device cb)" and "at_most_one_pass cb"
  shows "at_most_one_pass (api_run mx cs cb)
    \<and> (\<forall>dev acquired cb'. SDL_GpuAcquireCommandBuffer dev acquired = Some cb' \<longrightarrow> at_most_one_pass cb')
    \<and> (any_pass_in_progress cb \<longrightarrow>
         SDL_GpuBeginRenderPass mx h a n d cb = (NULL, cb) \<and>
         SDL_GpuBeginComputePass h t tn b bn cb = (NULL, cb) \<and>
         SDL_GpuBeginCopyPass h cb = (NULL, cb))
    \<and> (fst (SDL_GpuBeginRenderPass mx h a n d cb) = NULL \<longrightarrow>
         snd (SDL_GpuBeginRenderPass mx h a n d cb) = cb)
    \<and> (fst (SDL_GpuBeginComputePass h t tn b bn cb) = NULL \<longrightarrow>
         snd (SDL_GpuBeginComputePass h t tn b bn cb) = cb)
    \<and> (fst (SDL_GpuBeginCopyPass h cb) = NULL \<longrightarrow> snd (SDL_GpuBeginCopyPass h cb) = cb)
    \<and> (fst (SDL_GpuBeginRenderPass mx h a n d cb) = Valid \<longrightarrow>
         pass_flags (snd (SDL_GpuBeginRenderPass mx h a n d cb)) = (True, False, False))
    \<and> (fst (SDL_GpuBeginComputePass h t tn b bn cb) = Valid \<longrightarrow>
         pass_flags (snd (SDL_GpuBeginComputePass h t tn b bn cb)) = (False, True, False))
    \<and> (fst (SDL_GpuBeginCopyPass h cb) = Valid \<longrightarrow>
         pass_flags (snd (SDL_GpuBeginCopyPass h cb)) = (False, False, True))
    \<and> pass_flags (SDL_GpuEndRenderPass h cb) =
         (if h = NULL then pass_flags cb
          else (False, computePass_inProgress cb, copyPass_inProgress cb))
    \<and> pass_flags (SDL_GpuEndComputePass h cb) =
         (if h = NULL then pass_flags cb
          else (renderPass_inProgress cb, False, copyPass_inProgress cb))
    \<and> pass_flags (SDL_GpuEndCopyPass h cb) =
         (if h = NULL then pass_flags cb
          else (renderPass_inProgress cb, computePass_inProgress cb, False))"
proof -
  have inv: "at_most_one_pass (api_run mx cs cb)"
    using assms by (rule api_run_at_most_one_pass)
  have acq: "\<forall>dev acquired cb'. SDL_GpuAcquireCommandBuffer dev acquired = Some cb' \<longrightarrow> at_most_one_pass cb'"
    using acquire_at_most_one_pass by blast
  show ?thesis
    using inv acq begin_pass_refused_in_debug [OF assms(1)]
      begin_pass_sets_own_flag_in_debug [OF assms(1)] begin_pass_null_unchanged end_pass_flags
    by presburger
qed

text \<open>
  In debug mode a compute pass begun inside a render pass is refused, and after the render
  pass has ended a copy pass may begin: one flag at most throughout.
\<close>

theorem pass_exclusion_in_debug_mode_witness:
  "debugMode (device (idle_command_buffer True)) \<and> at_most_one_pass (idle_command_buffer True)
   \<and> at_most_one_pass (api_run 4
        [(NULL, Valid, OnCommandBuffer (BeginRenderPass Valid 1 NULL)),
         (NULL, Valid, OnCommandBuffer (BeginComputePass NULL 0 NULL 0)),
         (NULL, Valid, OnRenderPass EndRenderPass),
         (NULL, Valid, OnCommandBuffer BeginCopyPass)] (idle_command_buffer True))
   \<and> pass_flags (api_run 4
        [(NULL, Valid, OnCommandBuffer (BeginRenderPass Valid 1 NULL)),
         (NULL, Valid, OnCommandBuffer (BeginComputePass NULL 0 NULL 0))] (idle_command_buffer True))
      = (True, False, False)"
proof -
  have d: "debugMode (device (idle_command_buffer True))"
    by (simp add: idle_command_buffer_def)
  have a: "at_most_one_pass (idle_command_buffer True)"
    by (simp add: idle_command_buffer_def at_most_one_pass_def)
  have f: "pass_flags (api_run 4
        [(NULL, Valid, OnCommandBuffer (BeginRenderPass Valid 1 NULL)),
         (NULL, Valid, OnCommandBuffer (BeginComputePass NULL 0 NULL 0))] (idle_command_buffer True))
      = (True, False, False)"
    by (simp add: idle_command_buffer_def frontend_defs pass_flags_def
        MAX_COMPUTE_WRITE_TEXTURES_def MAX_COMPUTE_WRITE_BUFFERS_def)
  from pass_exclusion_in_debug_mode [OF d a, of 4
        "[(NULL, Valid, OnCommandBuffer (BeginRenderPass Valid 1 NULL)),
         (NULL, Valid, OnCommandBuffer (BeginComputePass NULL 0 NULL 0)),
         (NULL, Valid, OnRenderPass EndRenderPass),
         (NULL, Valid, OnCommandBuffer BeginCopyPass)]"] d a f
  show ?thesis by blast
qed

text \<open>
  The claim as it stands fails on a device without debug mode: there a compute pass begun
  inside a render pass is not refused, and both flags end up set.
\<close>

theorem pass_exclusion_fails_without_debug_mode:
  "\<not> at_most_one_pass (api_run 4
        [(NULL, Valid, OnCommandBuffer (BeginRenderPass Valid 1 NULL)),
         (NULL, Valid, OnCommandBuffer (BeginComputePass NULL 0 NULL 0))] (idle_command_buffer False))
   \<and> fst (SDL_GpuBeginComputePass Valid NULL 0 NULL 0
          (snd (SDL_GpuBeginRenderPass 4 Valid Valid 1 NULL (idle_command_buffer False)))) = Valid"
  by (simp add: idle_command_buffer_def frontend_defs at_most_one_pass_def
      MAX_COMPUTE_WRITE_TEXTURES_def MAX_COMPUTE_WRITE_BUFFERS_def)


subsection \<open>Submitted command buffers\<close>

text \<open>In debug mode a submitted command buffer never has a pass in progress.\<close>

lemma api_call_submitted_idle:
  assumes "debugMode (device cb)" and "submitted_idle cb"
  shows "submitted_idle (snd (api_call mx env h c cb))"
proof (cases c)
  case (OnCommandBuffer x) with assms show ?thesis
    by (cases x) (auto simp: frontend_defs submitted_idle_def split: option.splits)
next
  case (OnRenderPass x) with assms show ?thesis
    by (cases x) (auto simp: frontend_defs submitted_idle_def)
next
  case (OnComputePass x) with assms show ?thesis
    by (cases x) (auto simp: frontend_defs submitted_idle_def)
next
  case (OnCopyPass x) with assms show ?thesis
    by (cases x) (auto simp: frontend_defs submitted_idle_def)
qed

lemma api_run_submitted_idle:
  "debugMode (device cb) \<Longrightarrow> submitted_idle cb \<Longrightarrow> submitted_idle (api_run mx cs cb)"
proof (induction cs arbitrary: cb)
  case Nil then show ?case by simp
next
  case (Cons a cs)
  obtain env h c where a: "a = (env, h, c)" by (cases a)
  show ?case unfolding a api_run.simps
    by (rule Cons.IH) (simp_all add: Cons.prems api_call_submitted_idle)
qed

lemma pass_command_on_submitted_idle:
  assumes "debugMode (device cb)" and "submitted cb" and "\<not> any_pass_in_progress cb"
    and "is_pass_command c" and "\<forall>p. c \<noteq> OnRenderPass (BindGraphicsPipeline p)"
  shows "snd (api_call mx env h c cb) = cb \<and> fst (api_call mx env h c cb) \<in> {None, Some NULL}"
proof (cases c)
  case (OnCommandBuffer x) with assms show ?thesis
    by (cases x) (auto simp: frontend_defs)
next
  case (OnRenderPass x) with assms show ?thesis
    by (cases x) (auto simp: frontend_defs)
next
  case (OnComputePass x) with assms show ?thesis
    by (cases x) (auto simp: frontend_defs)
next
  case (OnCopyPass x) with assms show ?thesis
    by (cases x) (auto simp: frontend_defs)
qed

text \<open>
  C2 (as amended).  On a device in debug mode, take a command buffer as
  \<^verbatim>\<open>SDL_GpuAcquireCommandBuffer\<close> returns it and make any sequence of calls on it.  If the
  command buffer is then submitted, every later begin-pass, end-pass, draw, dispatch or
  bind call other than \<^verbatim>\<open>SDL_GpuBindGraphicsPipeline\<close> returns its sentinel (nothing for a
  \<^verbatim>\<open>void\<close> function, \<^verbatim>\<open>NULL\<close> for a begin-pass call) and leaves the command buffer as it
  was: no field of the header changes and nothing is forwarded to the back end.
\<close>

theorem submitted_buffer_inert_in_debug_mode:
  assumes "debugMode d" and "SDL_GpuAcquireCommandBuffer (Some d) acquired = Some cb0"
    and "submitted (api_run mx cs cb0)"
    and "is_pass_command c" and "\<forall>p. c \<noteq> OnRenderPass (BindGraphicsPipeline p)"
  shows "snd (api_call mx env h c (api_run mx cs cb0)) = api_run mx cs cb0
       \<and> fst (api_call mx env h c (api_run mx cs cb0)) \<in> {None, Some NULL}"
proof -
  from assms(2) have dev: "device cb0 = d" and idle0: "submitted_idle cb0"
    using acquire_at_most_one_pass [OF assms(2)] by (auto simp: submitted_idle_def)
  have dbg: "debugMode (device (api_run mx cs cb0))" using dev assms(1) by simp
  have "submitted_idle (api_run mx cs cb0)"
    by (rule api_run_submitted_idle) (simp_all add: dev assms(1) idle0)
  with assms(3) have idle: "\<not> any_pass_in_progress (api_run mx cs cb0)"
    by (simp add: submitted_idle_def)
  show ?thesis
    by (rule pass_command_on_submitted_idle [OF dbg assms(3) idle assms(4) assms(5)])
qed

text \<open>After a render pass and a submission in debug mode, a draw call does nothing.\<close>

theorem submitted_buffer_inert_in_debug_mode_witness:
  "debugMode (device (idle_command_buffer True))
   \<and> SDL_GpuAcquireCommandBuffer (Some (device (idle_command_buffer True)))
        (Some (idle_command_buffer False)) = Some (idle_command_buffer True)
   \<and> submitted (api_run 4
        [(NULL, Valid, OnCommandBuffer (BeginRenderPass Valid 1 NULL)),
         (NULL, Valid, OnRenderPass EndRenderPass),
         (NULL, Valid, OnCommandBuffer Submit)] (idle_command_buffer True))
   \<and> is_pass_command (OnRenderPass (DrawPrimitives 0 3))
   \<and> snd (api_call 4 NULL Valid (OnRenderPass (DrawPrimitives 0 3)) (api_run 4
        [(NULL, Valid, OnCommandBuffer (BeginRenderPass Valid 1 NULL)),
         (NULL, Valid, OnRenderPass EndRenderPass),
         (NULL, Valid, OnCommandBuffer Submit)] (idle_command_buffer True)))
      = api_run 4
        [(NULL, Valid, OnCommandBuffer (BeginRenderPass Valid 1 NULL)),
         (NULL, Valid, OnRenderPass EndRenderPass),
         (NULL, Valid, OnCommandBuffer Submit)] (idle_command_buffer True)"
proof -
  have d: "debugMode (device (idle_command_buffer True))"
    by (simp add: idle_command_buffer_def)
  have a: "SDL_GpuAcquireCommandBuffer (Some (device (idle_command_buffer True)))
        (Some (idle_command_buffer False)) = Some (idle_command_buffer True)"
    by (simp add: SDL_GpuAcquireCommandBuffer_def idle_command_buffer_def)
  have s: "submitted (api_run 4
        [(NULL, Valid, OnCommandBuffer (BeginRenderPass Valid 1 NULL)),
         (NULL, Valid, OnRenderPass EndRenderPass),
         (NULL, Valid, OnCommandBuffer Submit)] (idle_command_buffer True))"
    by (simp add: idle_command_buffer_def frontend_defs)
  have p: "is_pass_command (OnRenderPass (DrawPrimitives 0 3))" by simp
  have n: "\<forall>p. OnRenderPass (DrawPrimitives 0 3) \<noteq> OnRenderPass (BindGraphicsPipeline p)" by simp
  from submitted_buffer_inert_in_debug_mode [OF d a s p n, of NULL Valid] d a s p
  show ?thesis by blast
qed

text \<open>
  The claim as it stands fails on a device without debug mode: a copy pass begun on a
  submitted command buffer is forwarded to the back end and sets its flag.
\<close>

theorem submitted_buffer_not_inert_without_debug_mode:
  "submitted ((idle_command_buffer False)\<lparr>submitted := True\<rparr>)
   \<and> SDL_GpuBeginCopyPass Valid ((idle_command_buffer False)\<lparr>submitted := True\<rparr>)
      = (Valid, (idle_command_buffer False)
                  \<lparr>copyPass_inProgress := True, submitted := True,
                   delegated := [OnCommandBuffer BeginCopyPass]\<rparr>)
   \<and> snd (SDL_GpuBeginCopyPass Valid ((idle_command_buffer False)\<lparr>submitted := True\<rparr>))
      \<noteq> (idle_command_buffer False)\<lparr>submitted := True\<rparr>"
  by (simp add: idle_command_buffer_def frontend_defs)

text \<open>
  \<^verbatim>\<open>SDL_GpuBindGraphicsPipeline\<close> is the one bind call without any check of the command
  buffer: even in debug mode, on a submitted command buffer, it forwards the call and sets
  \<open>graphicsPipelineBound\<close>.  (\<^verbatim>\<open>SDL_GpuBindComputePipeline\<close> has the check.)
\<close>

lemma bind_graphics_pipeline_unchecked:
  "SDL_GpuBindGraphicsPipeline Valid Valid ((idle_command_buffer True)\<lparr>submitted := True\<rparr>)
     = (idle_command_buffer True)
         \<lparr>graphicsPipelineBound := True, submitted := True,
          delegated := [OnRenderPass (BindGraphicsPipeline Valid)]\<rparr>
   \<and> SDL_GpuBindComputePipeline Valid Valid ((idle_command_buffer True)\<lparr>submitted := True\<rparr>)
     = (idle_command_buffer True)\<lparr>submitted := True\<rparr>"
  by (simp add: idle_command_buffer_def frontend_defs)

subsection \<open>Argument checks and debug mode\<close>







subsection \<open>Device construction\<close>

lemma create_on_selected_Some:
  "create_on_selected sel dbg low bs = Some dev \<Longrightarrow>
     \<exists>b result. b \<in> set bs \<and> backendflag b = sel \<and> CreateDevice b dbg low = Some result \<and>
       dev = result\<lparr>backend := backendflag b, shaderFormats := driver_shaderFormats b, debugMode := dbg\<rparr>"
proof (induction bs)
  case Nil then show ?case by simp
next
  case (Cons b bs)
  show ?case
  proof (cases "backendflag b = sel \<and> CreateDevice b dbg low \<noteq> None")
    case True
    then obtain result where r: "CreateDevice b dbg low = Some result" by auto
    with True Cons.prems
    have "dev = result\<lparr>backend := backendflag b, shaderFormats := driver_shaderFormats b, debugMode := dbg\<rparr>"
      by auto
    with True r show ?thesis by auto
  next
    case False
    with Cons.prems have "create_on_selected sel dbg low bs = Some dev"
      by (auto split: option.splits if_splits)
    from Cons.IH [OF this] show ?thesis by auto
  qed
qed

text \<open>
  C7 (as amended).  For every successful device creation the constructed device stores
  the identifier of the selected back end, that back end's whole set of supported shader
  formats (not its intersection with the requested formats), and the debug flag (the
  \<^verbatim>\<open>DEBUGMODE\<close> property, true when the property is not set).
\<close>

theorem created_device_fields:
  assumes "SDL_GpuCreateDeviceWithProperties backends video hint props = Some dev"
  shows "\<exists>b \<in> set backends.
           backendflag b =
             SDL_GpuSelectBackend backends (case hint of None \<Rightarrow> NAME_STRING props | Some g \<Rightarrow> Some g)
               (requested_formatFlags props)
         \<and> backend dev = backendflag b
         \<and> shaderFormats dev = driver_shaderFormats b
         \<and> debugMode dev = SDL_GetBooleanProperty (DEBUGMODE_BOOL props) True"
proof -
  let ?sel = "SDL_GpuSelectBackend backends (case hint of None \<Rightarrow> NAME_STRING props | Some g \<Rightarrow> Some g)
               (requested_formatFlags props)"
  from assms have "create_on_selected ?sel (SDL_GetBooleanProperty (DEBUGMODE_BOOL props) True)
      (SDL_GetBooleanProperty (PREFERLOWPOWER_BOOL props) True) backends = Some dev"
    by (simp add: SDL_GpuCreateDeviceWithProperties_def Let_def split: if_splits)
  from create_on_selected_Some [OF this] show ?thesis by auto
qed

lemma example_names_compare:
  "SDL_strcasecmp_is_0 ''metal'' ''Metal''" "\<not> SDL_strcasecmp_is_0 ''metal'' ''Vulkan''"
  by code_simp+

text \<open>
  A Metal device requested by name with MSL shaders only: the device stores both formats
  of the Metal back end.
\<close>

theorem created_device_fields_witness:
  "SDL_GpuCreateDevice example_backends Valid None {SHADERFORMAT_MSL} True False (Some ''metal'')
     = Some \<lparr>backend = SDL_GPU_DRIVER_METAL,
             shaderFormats = {SHADERFORMAT_MSL, SHADERFORMAT_METALLIB}, debugMode = True\<rparr>
   \<and> (\<exists>b \<in> set example_backends.
         shaderFormats \<lparr>backend = SDL_GPU_DRIVER_METAL,
             shaderFormats = {SHADERFORMAT_MSL, SHADERFORMAT_METALLIB}, debugMode = True\<rparr>
           = driver_shaderFormats b)"
proof -
  have c: "SDL_GpuCreateDevice example_backends Valid None {SHADERFORMAT_MSL} True False (Some ''metal'')
     = Some \<lparr>backend = SDL_GPU_DRIVER_METAL,
             shaderFormats = {SHADERFORMAT_MSL, SHADERFORMAT_METALLIB}, debugMode = True\<rparr>"
    by (simp add: SDL_GpuCreateDevice_def SDL_GpuCreateDeviceWithProperties_def
        requested_formatFlags_def SDL_GetBooleanProperty_def SDL_GpuSelectBackend_def
        example_backends_def blank_device_def example_names_compare)
  from created_device_fields [OF c [unfolded SDL_GpuCreateDevice_def]] c
  show ?thesis by blast
qed

text \<open>
  The claim as it stands fails.  Requested by name with MSL only, the Metal back end
  supports MSL and METALLIB: the intersection is MSL alone, the device stores both.
  Requested without a name with SPIR-V only, the first back end that can be prepared is
  taken without a look at its formats: the intersection is empty, the device stores the
  Metal formats.
\<close>

theorem created_device_formats_not_intersection:
  "(\<exists>dev. SDL_GpuCreateDevice example_backends Valid None {SHADERFORMAT_MSL} True False (Some ''metal'')
            = Some dev
        \<and> shaderFormats dev \<noteq> {SHADERFORMAT_MSL} \<inter> {SHADERFORMAT_MSL, SHADERFORMAT_METALLIB})
   \<and> (\<exists>dev. SDL_GpuCreateDevice example_backends Valid None {SHADERFORMAT_SPIRV} True False None
            = Some dev
        \<and> backend dev = SDL_GPU_DRIVER_METAL
        \<and> shaderFormats dev = {SHADERFORMAT_MSL, SHADERFORMAT_METALLIB}
        \<and> {SHADERFORMAT_SPIRV} \<inter> {SHADERFORMAT_MSL, SHADERFORMAT_METALLIB} = {})"
  by (auto simp: SDL_GpuCreateDevice_def SDL_GpuCreateDeviceWithProperties_def
      requested_formatFlags_def SDL_GetBooleanProperty_def SDL_GpuSelectBackend_def
      example_backends_def blank_device_def example_names_compare)


subsection \<open>Direct3D 12: pipeline resource counts and root signature\<close>

lemma add_descriptor_table_short:
  "length ps < MAX_ROOT_SIGNATURE_PARAMETERS \<Longrightarrow>
     add_descriptor_table ty n (Some ps) =
       Some (ps @ map single_range_table (filter (\<lambda>tn. snd tn \<noteq> 0) [(ty, n)]))"
  by (simp add: add_descriptor_table_def single_range_table_def word_greater_zero_iff)

lemma root_parameters_layout:
  "add_descriptor_table RANGE_TYPE_SAMPLER s
     (add_descriptor_table RANGE_TYPE_UAV st
       (add_descriptor_table RANGE_TYPE_UAV sb
         (add_descriptor_table RANGE_TYPE_CBV u (Some []))))
   = Some (map single_range_table (nonempty_categories u sb st s))"
proof -
  have 1: "add_descriptor_table RANGE_TYPE_CBV u (Some [])
         = Some (map single_range_table (filter (\<lambda>tn. snd tn \<noteq> 0) [(RANGE_TYPE_CBV, u)]))"
    by (simp add: add_descriptor_table_short MAX_ROOT_SIGNATURE_PARAMETERS_def)
  have 2: "add_descriptor_table RANGE_TYPE_UAV sb
             (Some (map single_range_table (filter (\<lambda>tn. snd tn \<noteq> 0) [(RANGE_TYPE_CBV, u)])))
         = Some (map single_range_table
             (filter (\<lambda>tn. snd tn \<noteq> 0) [(RANGE_TYPE_CBV, u), (RANGE_TYPE_UAV, sb)]))"
    by (subst add_descriptor_table_short) (simp_all add: MAX_ROOT_SIGNATURE_PARAMETERS_def)
  have 3: "add_descriptor_table RANGE_TYPE_UAV st
             (Some (map single_range_table
               (filter (\<lambda>tn. snd tn \<noteq> 0) [(RANGE_TYPE_CBV, u), (RANGE_TYPE_UAV, sb)])))
         = Some (map single_range_table
             (filter (\<lambda>tn. snd tn \<noteq> 0)
               [(RANGE_TYPE_CBV, u), (RANGE_TYPE_UAV, sb), (RANGE_TYPE_UAV, st)]))"
    by (subst add_descriptor_table_short) (simp_all add: MAX_ROOT_SIGNATURE_PARAMETERS_def)
  have 4: "add_descriptor_table RANGE_TYPE_SAMPLER s
             (Some (map single_range_table
               (filter (\<lambda>tn. snd tn \<noteq> 0)
                 [(RANGE_TYPE_CBV, u), (RANGE_TYPE_UAV, sb), (RANGE_TYPE_UAV, st)])))
         = Some (map single_range_table (nonempty_categories u sb st s))"
    unfolding nonempty_categories_def
    by (subst add_descriptor_table_short) (simp_all add: MAX_ROOT_SIGNATURE_PARAMETERS_def)
  show ?thesis by (simp only: 1 2 3 4)
qed

lemma create_root_signature_result:
  "D3D12_INTERNAL_CreateRootSignature native s u sb st =
    (if serialize_succeeds native \<and> create_root_signature_succeeds native
     then Some \<lparr>pParameters = map single_range_table (nonempty_categories u sb st s),
                NumStaticSamplers = 0, Flags = ALLOW_INPUT_ASSEMBLER_INPUT_LAYOUT\<rparr>
     else None)"
  by (simp add: D3D12_INTERNAL_CreateRootSignature_def root_parameters_layout)

text \<open>
  C4.  Every graphics pipeline that \<^verbatim>\<open>D3D12_CreateGraphicsPipeline\<close> returns for a
  create-info stores, per stage, exactly the resource counts of that stage's shader, and
  its root signature consists of one descriptor table per non-empty category, in the
  order CBV (uniform buffers), UAV (storage buffers), UAV (storage textures), SAMPLER,
  each table one range over the element-wise maximum of the vertex and fragment counts of
  its category (register 0, space 0, appended offset, visible to all stages).  The
  pipeline is returned exactly when the front face is one of the two enumerants and the
  three native calls succeed.
\<close>

theorem graphics_pipeline_counts_and_root_signature:
  "(D3D12_CreateGraphicsPipeline native info \<noteq> None) =
      (D3D12_INTERNAL_ConvertRasterizerState (frontFace info) \<and> serialize_succeeds native
       \<and> create_root_signature_succeeds native \<and> create_pipeline_state_succeeds native)
   \<and> (\<forall>p. D3D12_CreateGraphicsPipeline native info = Some p \<longrightarrow>
        vertexSamplerCount p = samplerCount (vertexShader info)
      \<and> vertexUniformBufferCount p = uniformBufferCount (vertexShader info)
      \<and> vertexStorageBufferCount p = storageBufferCount (vertexShader info)
      \<and> vertexStorageTextureCount p = storageTextureCount (vertexShader info)
      \<and> fragmentSamplerCount p = samplerCount (fragmentShader info)
      \<and> fragmentUniformBufferCount p = uniformBufferCount (fragmentShader info)
      \<and> fragmentStorageBufferCount p = storageBufferCount (fragmentShader info)
      \<and> fragmentStorageTextureCount p = storageTextureCount (fragmentShader info)
      \<and> pParameters (rootSignature p) =
          map single_range_table
            (nonempty_categories
              (max (uniformBufferCount (vertexShader info)) (uniformBufferCount (fragmentShader info)))
              (max (storageBufferCount (vertexShader info)) (storageBufferCount (fragmentShader info)))
              (max (storageTextureCount (vertexShader info)) (storageTextureCount (fragmentShader info)))
              (max (samplerCount (vertexShader info)) (samplerCount (fragmentShader info)))))"
  by (auto simp: D3D12_CreateGraphicsPipeline_def create_root_signature_result Let_def
      split: if_splits)

text \<open>
  A vertex shader with one uniform buffer and a fragment shader with two samplers and one
  uniform buffer: the root signature is a CBV table of 1 followed by a SAMPLER table of 2.
\<close>

theorem graphics_pipeline_counts_and_root_signature_witness:
  "(\<exists>p. D3D12_CreateGraphicsPipeline
        \<lparr>serialize_succeeds = True, create_root_signature_succeeds = True,
         create_pipeline_state_succeeds = True\<rparr>
        \<lparr>vertexShader = \<lparr>samplerCount = 0, uniformBufferCount = 1, storageBufferCount = 0, storageTextureCount = 0\<rparr>,
         fragmentShader = \<lparr>samplerCount = 2, uniformBufferCount = 1, storageBufferCount = 0, storageTextureCount = 0\<rparr>,
         frontFace = FRONTFACE_CLOCKWISE, primitiveType = 0, stencilReference = 0,
         attachmentInfo = \<lparr>hasDepthStencilAttachment = False, depthStencilFormat = D16_UNORM\<rparr>\<rparr> = Some p
      \<and> vertexSamplerCount p = 0 \<and> fragmentSamplerCount p = 2
      \<and> pParameters (rootSignature p) =
          [single_range_table (RANGE_TYPE_CBV, 1), single_range_table (RANGE_TYPE_SAMPLER, 2)])"
proof -
  let ?n = "\<lparr>serialize_succeeds = True, create_root_signature_succeeds = True,
         create_pipeline_state_succeeds = True\<rparr>"
  let ?i = "\<lparr>vertexShader = \<lparr>samplerCount = 0, uniformBufferCount = 1, storageBufferCount = 0, storageTextureCount = 0\<rparr>,
         fragmentShader = \<lparr>samplerCount = 2, uniformBufferCount = 1, storageBufferCount = 0, storageTextureCount = 0\<rparr>,
         frontFace = FRONTFACE_CLOCKWISE, primitiveType = 0, stencilReference = 0,
         attachmentInfo = \<lparr>hasDepthStencilAttachment = False, depthStencilFormat = D16_UNORM\<rparr>\<rparr>"
  from graphics_pipeline_counts_and_root_signature [of ?n ?i]
  show ?thesis
    by (auto simp: D3D12_INTERNAL_ConvertRasterizerState_def nonempty_categories_def)
qed


subsection \<open>Direct3D 12: clears at render-pass begin\<close>

lemma begin_color_attachments_clears:
  "filter is_clear (commandList (begin_color_attachments i infos cb)) =
     filter is_clear (commandList cb) @
     map (\<lambda>info. ClearRenderTargetView (rtvHandle (slice_texture info)) (clearColor info)) infos"
  by (induction infos arbitrary: i cb) (simp_all add: record_command_def)

text \<open>
  Whenever \<^verbatim>\<open>D3D12_BeginRenderPass\<close> records anything, it records one clear per color
  attachment, in order, with the attachment's clear color, whatever the load operations.
\<close>

lemma begin_render_pass_clears_every_attachment:
  assumes "commandList (D3D12_BeginRenderPass infos ds cb) \<noteq> commandList cb"
  shows "filter is_clear (commandList (D3D12_BeginRenderPass infos ds cb)) =
     filter is_clear (commandList cb) @
     map (\<lambda>info. ClearRenderTargetView (rtvHandle (slice_texture info)) (clearColor info)) infos"
  using assms
  by (auto simp: D3D12_BeginRenderPass_def record_command_def begin_color_attachments_clears
      split: option.splits)


subsection \<open>Direct3D 12: uniform-buffer leases\<close>

text \<open>
  The tracking half of the lease cycle.  While the bookkeeping of the array is sound
  (\<open>usedUniformBufferCount\<close> slots in use out of \<open>usedUniformBufferCapacity\<close>, the length of
  the array) and the array is shorter than \<open>2^32 - 1\<close>, tracking a buffer keeps it sound,
  leaves the buffer among the used ones together with all that were there, and grows the
  array by one slot at most.
\<close>

lemma track_uniform_buffer_tracked:
  assumes "used_list_sound cb" and small: "length (usedUniformBuffers cb) < 2 ^ 32 - 1"
  shows "used_buffers (D3D12_INTERNAL_TrackUniformBuffer ub cb) = insert ub (used_buffers cb)"
    and "used_list_sound (D3D12_INTERNAL_TrackUniformBuffer ub cb)"
    and "length (usedUniformBuffers (D3D12_INTERNAL_TrackUniformBuffer ub cb))
           \<le> Suc (length (usedUniformBuffers cb))"
proof -
  let ?n = "unat (usedUniformBufferCount cb)"
  let ?xs = "usedUniformBuffers cb"
  from assms have n: "?n \<le> length ?xs" and len: "length ?xs = unat (usedUniformBufferCapacity cb)"
    by (simp_all add: used_list_sound_def)
  have suc: "unat (usedUniformBufferCount cb + 1) = Suc ?n"
    using n small by (simp add: unat_word_ariths)
  have suc_cap: "unat (usedUniformBufferCapacity cb + 1) = Suc (length ?xs)"
    using len small by (simp add: unat_word_ariths)
  show "used_buffers (D3D12_INTERNAL_TrackUniformBuffer ub cb) = insert ub (used_buffers cb)"
  proof (cases "ub \<in> set (take ?n ?xs)")
    case True
    then show ?thesis
      by (auto simp: D3D12_INTERNAL_TrackUniformBuffer_def used_buffers_def)
  next
    case False
    show ?thesis
    proof (cases "usedUniformBufferCount cb = usedUniformBufferCapacity cb")
      case True
      then have full: "?n = length ?xs" using len by simp
      show ?thesis
        using False True full suc
        by (simp add: D3D12_INTERNAL_TrackUniformBuffer_def used_buffers_def Let_def
            take_Suc_conv_app_nth [symmetric])
    next
      case neq: False
      then have lt: "?n < length ?xs" using n len by (metis le_neq_implies_less word_unat_eq_iff)
      show ?thesis
        using False neq lt suc
        by (simp add: D3D12_INTERNAL_TrackUniformBuffer_def used_buffers_def Let_def
            take_Suc_conv_app_nth)
    qed
  qed
  show "used_list_sound (D3D12_INTERNAL_TrackUniformBuffer ub cb)"
  proof (cases "usedUniformBufferCount cb = usedUniformBufferCapacity cb")
    case True
    then show ?thesis
      using assms(1) suc suc_cap len
      by (simp add: D3D12_INTERNAL_TrackUniformBuffer_def used_list_sound_def Let_def)
  next
    case False
    then have lt: "?n < length ?xs" using n len by (metis le_neq_implies_less word_unat_eq_iff)
    with False show ?thesis
      using assms(1) suc len
      by (simp add: D3D12_INTERNAL_TrackUniformBuffer_def used_list_sound_def Let_def)
  qed
  show "length (usedUniformBuffers (D3D12_INTERNAL_TrackUniformBuffer ub cb))
           \<le> Suc (length (usedUniformBuffers cb))"
    by (simp add: D3D12_INTERNAL_TrackUniformBuffer_def Let_def)
qed

text \<open>Every buffer that \<^verbatim>\<open>D3D12_INTERNAL_AcquireUniformBufferFromPool\<close> hands out is tracked.\<close>

lemma acquired_uniform_buffer_tracked:
  assumes "used_list_sound cb" and "length (usedUniformBuffers cb) < 2 ^ 32 - 1"
    and "D3D12_INTERNAL_AcquireUniformBufferFromPool created renderer cb = (ub, renderer', cb')"
  shows "ub \<in> used_buffers cb' \<and> used_buffers cb \<subseteq> used_buffers cb'"
  using assms(3) track_uniform_buffer_tracked(1) [OF assms(1,2)]
  by (auto simp: D3D12_INTERNAL_AcquireUniformBufferFromPool_def split: if_splits)

text \<open>
  The returning half is missing: \<^verbatim>\<open>D3D12_Submit\<close> leaves the list of used uniform buffers
  and the renderer's pool exactly as they were.
\<close>

lemma present_windows_frame:
  "uniformBufferPoolCount (fst (present_windows idx ws st)) = uniformBufferPoolCount (fst st)
   \<and> uniformBufferPool (fst (present_windows idx ws st)) = uniformBufferPool (fst st)
   \<and> usedUniformBufferCount (snd (present_windows idx ws st)) = usedUniformBufferCount (snd st)
   \<and> usedUniformBufferCapacity (snd (present_windows idx ws st)) = usedUniformBufferCapacity (snd st)
   \<and> usedUniformBuffers (snd (present_windows idx ws st)) = usedUniformBuffers (snd st)
   \<and> fenceValue (snd (present_windows idx ws st)) = fenceValue (snd st)"
proof (induction ws arbitrary: st)
  case Nil then show ?case by simp
next
  case (Cons w ws)
  obtain renderer cb where st: "st = (renderer, cb)" by (cases st)
  show ?case unfolding st present_windows.simps
    by (simp add: Cons.IH record_command_def)
qed

lemma submit_keeps_leases:
  "uniformBufferPoolCount (fst (D3D12_Submit idx completed st)) = uniformBufferPoolCount (fst st)
   \<and> uniformBufferPool (fst (D3D12_Submit idx completed st)) = uniformBufferPool (fst st)
   \<and> usedUniformBufferCount (snd (D3D12_Submit idx completed st)) = usedUniformBufferCount (snd st)
   \<and> usedUniformBuffers (snd (D3D12_Submit idx completed st)) = usedUniformBuffers (snd st)"
proof -
  let ?st0 = "(fst st, (record_command ExecuteCommandLists (record_command CloseCommandList (snd st)))
               \<lparr>nextWindow := []\<rparr>)"
  obtain r c where pw: "present_windows idx (nextWindow (snd st)) ?st0 = (r, c)"
    by (cases "present_windows idx (nextWindow (snd st)) ?st0")
  from present_windows_frame [of idx "nextWindow (snd st)" ?st0]
  have frame: "uniformBufferPoolCount r = uniformBufferPoolCount (fst st)"
    "uniformBufferPool r = uniformBufferPool (fst st)"
    "usedUniformBufferCount c = usedUniformBufferCount (snd st)"
    "usedUniformBuffers c = usedUniformBuffers (snd st)"
    unfolding pw by (simp_all add: record_command_def)
  show ?thesis
    unfolding D3D12_Submit_def pw by (simp add: Let_def record_command_def frame)
qed



subsection \<open>Renderer: fence rotation at present\<close>

lemma outstanding_fences_append:
  "outstanding_fences (rs @ rs') held = outstanding_fences rs' (outstanding_fences rs held)"
  by (induction rs held rule: outstanding_fences.induct) simp_all

lemma render_present_requests:
  "requests (GPU_RenderPresent next_fence cbuf tex fmt data) =
     requests data @ [GpuSubmitAndAcquireFence next_fence]
     @ (case present_fence data of None \<Rightarrow> [] | Some f \<Rightarrow> [GpuWaitForFences f, GpuReleaseFence f])
     @ [GpuAcquireCommandBuffer, GpuAcquireSwapchainTexture]
     @ (if tex \<noteq> None then [GpuGetSwapchainTextureFormat] else [])"
  by (simp add: GPU_RenderPresent_def request_def Let_def split: option.splits)

lemma render_present_fence [simp]:
  "present_fence (GPU_RenderPresent next_fence cbuf tex fmt data) = next_fence"
  by (simp add: GPU_RenderPresent_def request_def Let_def split: option.splits)

lemma render_present_outstanding:
  assumes "outstanding_fences (requests data) [] = stored_fence data" and "next_fence \<noteq> None"
  shows "outstanding_fences (requests (GPU_RenderPresent next_fence cbuf tex fmt data)) []
       = stored_fence (GPU_RenderPresent next_fence cbuf tex fmt data)"
  using assms
  by (auto simp: render_present_requests outstanding_fences_append stored_fence_def
      split: option.splits)

lemma present_frames_outstanding:
  assumes "outstanding_fences (requests data) [] = stored_fence data"
    and "list_all (\<lambda>fr. fst fr \<noteq> None) frames"
  shows "outstanding_fences (requests (present_frames frames data)) []
       = stored_fence (present_frames frames data)"
  using assms
proof (induction frames arbitrary: data)
  case Nil then show ?case by simp
next
  case (Cons fr frames)
  obtain nf cbuf tex fmt where fr: "fr = (nf, cbuf, tex, fmt)" by (cases fr)
  from Cons.prems(2) have nf: "nf \<noteq> None" and rest: "list_all (\<lambda>fr. fst fr \<noteq> None) frames"
    by (simp_all add: fr)
  show ?case unfolding fr present_frames.simps
    by (rule Cons.IH [OF render_present_outstanding [OF Cons.prems(1) nf] rest])
qed

lemma present_frames_last_fence:
  "frames \<noteq> [] \<Longrightarrow> present_fence (present_frames frames data) = fst (last frames)"
proof (induction frames arbitrary: data)
  case Nil then show ?case by simp
next
  case (Cons fr frames)
  obtain nf cbuf tex fmt where fr: "fr = (nf, cbuf, tex, fmt)" by (cases fr)
  show ?case
  proof (cases "frames = []")
    case True then show ?thesis by (simp add: fr)
  next
    case False
    with Cons.IH [OF False] show ?thesis by (simp add: fr)
  qed
qed

lemma last_frame_has_fence:
  "list_all (\<lambda>fr. fst fr \<noteq> None) frames \<Longrightarrow> frames \<noteq> [] \<Longrightarrow> fst (last frames) \<noteq> None"
  by (induction frames) (auto split: if_splits)

text \<open>
  C9.  Take a renderer whose stored fence is its only outstanding one (as after creation,
  with none) and let it present any number of frames, at least one, each submission
  returning a fence.  After the last of these presents, of frame N say, the one fence
  stored is the only fence outstanding, and it is the fence \<open>f\<close> that the submission of
  frame N returned.  The present of frame N+1 then makes these requests, in this order:
  it submits the command buffer of frame N+1 and acquires the fence \<open>g\<close>, waits on \<open>f\<close>
  and releases \<open>f\<close>, and acquires the command buffer in which frame N+2 is recorded and
  the swapchain texture.  Afterwards \<open>g\<close> is stored and is the only fence outstanding.
\<close>

theorem present_fence_rotation:
  assumes "outstanding_fences (requests data) [] = stored_fence data"
    and "list_all (\<lambda>fr. fst fr \<noteq> None) frames" and "frames \<noteq> []"
  shows "\<exists>f. fst (last frames) = Some f
       \<and> present_fence (present_frames frames data) = Some f
       \<and> outstanding_fences (requests (present_frames frames data)) [] = [f]
       \<and> requests (GPU_RenderPresent (Some g) cbuf tex fmt (present_frames frames data)) =
           requests (present_frames frames data)
           @ [GpuSubmitAndAcquireFence (Some g), GpuWaitForFences f, GpuReleaseFence f,
              GpuAcquireCommandBuffer, GpuAcquireSwapchainTexture]
           @ (if tex \<noteq> None then [GpuGetSwapchainTextureFormat] else [])
       \<and> present_fence (GPU_RenderPresent (Some g) cbuf tex fmt (present_frames frames data)) = Some g
       \<and> outstanding_fences
           (requests (GPU_RenderPresent (Some g) cbuf tex fmt (present_frames frames data))) [] = [g]"
proof -
  from last_frame_has_fence [OF assms(2,3)]
  obtain f where f: "fst (last frames) = Some f" by auto
  have pf: "present_fence (present_frames frames data) = Some f"
    using present_frames_last_fence [OF assms(3)] f by simp
  have out: "outstanding_fences (requests (present_frames frames data)) [] = [f]"
    using present_frames_outstanding [OF assms(1,2)] pf by (simp add: stored_fence_def)
  have req: "requests (GPU_RenderPresent (Some g) cbuf tex fmt (present_frames frames data)) =
           requests (present_frames frames data)
           @ [GpuSubmitAndAcquireFence (Some g), GpuWaitForFences f, GpuReleaseFence f,
              GpuAcquireCommandBuffer, GpuAcquireSwapchainTexture]
           @ (if tex \<noteq> None then [GpuGetSwapchainTextureFormat] else [])"
    by (simp add: render_present_requests pf)
  have out': "outstanding_fences
           (requests (GPU_RenderPresent (Some g) cbuf tex fmt (present_frames frames data))) [] = [g]"
    unfolding req by (simp add: outstanding_fences_append out)
  from f pf out req out' show ?thesis by simp
qed

text \<open>
  Three frames back to back from the created renderer, with fences 11, 12 and 13: the
  present of the second frame waits on and releases fence 11 before the command buffer of
  the third frame is acquired, the present of the third frame does so with fence 12, and
  fence 13 is the one outstanding afterwards.
\<close>

theorem present_fence_rotation_witness:
  "requests (present_frames [(Some 11, Valid, Some 5, 0), (Some 12, Valid, Some 6, 0),
                             (Some 13, Valid, Some 5, 0)] created_renderer) =
     [GpuSubmitAndAcquireFence (Some 11),
      GpuAcquireCommandBuffer, GpuAcquireSwapchainTexture, GpuGetSwapchainTextureFormat,
      GpuSubmitAndAcquireFence (Some 12), GpuWaitForFences 11, GpuReleaseFence 11,
      GpuAcquireCommandBuffer, GpuAcquireSwapchainTexture, GpuGetSwapchainTextureFormat,
      GpuSubmitAndAcquireFence (Some 13), GpuWaitForFences 12, GpuReleaseFence 12,
      GpuAcquireCommandBuffer, GpuAcquireSwapchainTexture, GpuGetSwapchainTextureFormat]
   \<and> outstanding_fences (requests (present_frames [(Some 11, Valid, Some 5, 0),
        (Some 12, Valid, Some 6, 0), (Some 13, Valid, Some 5, 0)] created_renderer)) [] = [13]"
proof -
  have init: "outstanding_fences (requests created_renderer) [] = stored_fence created_renderer"
    by (simp add: created_renderer_def stored_fence_def)
  have first: "requests (GPU_RenderPresent (Some 12) Valid (Some 6) 0
                  (GPU_RenderPresent (Some 11) Valid (Some 5) 0 created_renderer)) =
     [GpuSubmitAndAcquireFence (Some 11),
      GpuAcquireCommandBuffer, GpuAcquireSwapchainTexture, GpuGetSwapchainTextureFormat,
      GpuSubmitAndAcquireFence (Some 12), GpuWaitForFences 11, GpuReleaseFence 11,
      GpuAcquireCommandBuffer, GpuAcquireSwapchainTexture, GpuGetSwapchainTextureFormat]"
    by (simp add: render_present_requests created_renderer_def)
  from present_fence_rotation [OF init,
      of "[(Some 11, Valid, Some 5, 0), (Some 12, Valid, Some 6, 0)]" 13 Valid "Some 5" 0]
  show ?thesis by (simp add: first)
qed


subsection \<open>Renderer: draw batching\<close>

lemma draw_trace_append [simp]: "draw_trace (rs @ rs') = draw_trace rs @ draw_trace rs'"
  by (simp add: draw_trace_def)

lemma draw_trace_Nil [simp]: "draw_trace [] = []"
  by (simp add: draw_trace_def)

lemma draw_trace_Cons [simp]: "draw_trace (r # rs) = draw_events r @ draw_trace rs"
  by (simp add: draw_trace_def)




lemma run_vertex_count_Nil [simp]: "run_vertex_count [] = 0"
  by (simp add: run_vertex_count_def)







lemma takeWhile_never [simp]: "takeWhile (\<lambda>e. False) cs = []"
  by (cases cs) simp_all

lemma dropWhile_never [simp]: "dropWhile (\<lambda>e. False) cs = cs"
  by (cases cs) simp_all











end
